theory Spec2Isabelle
  imports Main
begin

section \<open>JavaScript built-ins used by the client\<close>

text \<open>
  Strings are byte lists (UTF-8). Numbers that the client formats (page, hitsPerPage,
  ids, timestamps, HTTP status) are integers; \<open>Number.prototype.toString\<close> on an
  integer is its decimal representation with a leading minus sign for negatives.
  Fractional numbers, NaN and integers of magnitude \<open>10^21\<close> or more (which
  JavaScript prints in exponent form) are outside this model; the statements below
  format only hitsPerPage after the clamp, HTTP status codes, item ids and clock
  readings.
\<close>

fun digits :: "nat \<Rightarrow> string" where
  "digits n =
     (if n < 10 then [''0123456789'' ! n]
      else digits (n div 10) @ [''0123456789'' ! (n mod 10)])"

declare digits.simps [simp del]

definition number_toString :: "int \<Rightarrow> string" where
  "number_toString i = (if i < 0 then CHR ''-'' # digits (nat (- i)) else digits (nat i))"

text \<open>
  \<open>Array.prototype.join\<close>: the result starts empty; before every element but the
  first the separator is appended, then the element.
\<close>

definition join :: "string \<Rightarrow> string list \<Rightarrow> string" where
  "join sep xs =
     (case xs of [] \<Rightarrow> [] | x # rest \<Rightarrow> foldl (\<lambda>acc y. acc @ sep @ y) x rest)"

subsection \<open>URLSearchParams\<close>

text \<open>
  A \<open>URLSearchParams\<close> object is an ordered list of name/value pairs.
  \<open>set\<close> overwrites the first pair of that name and removes the others, or
  appends a new pair when the name is absent. \<open>toString\<close> is the
  application/x-www-form-urlencoded serialiser: names and values are
  percent-encoded byte by byte (ASCII alphanumerics and \<open>* - . _\<close> stay, a space
  becomes \<open>+\<close>), joined by \<open>=\<close> and \<open>&\<close>.
\<close>

type_synonym URLSearchParams = "(string \<times> string) list"

fun usp_set :: "string \<Rightarrow> string \<Rightarrow> URLSearchParams \<Rightarrow> URLSearchParams" where
  "usp_set k v [] = [(k, v)]"
| "usp_set k v ((k', v') # l) =
     (if k' = k then (k, v) # filter (\<lambda>e. fst e \<noteq> k) l else (k', v') # usp_set k v l)"

definition urlencoded_safe :: "char \<Rightarrow> bool" where
  "urlencoded_safe c =
     (let n = (of_char c :: nat) in
        (48 \<le> n \<and> n \<le> 57) \<or> (65 \<le> n \<and> n \<le> 90) \<or> (97 \<le> n \<and> n \<le> 122)
        \<or> n = 42 \<or> n = 45 \<or> n = 46 \<or> n = 95)"

definition urlencode_byte :: "char \<Rightarrow> string" where
  "urlencode_byte c =
     (if urlencoded_safe c then [c]
      else if c = CHR '' '' then ''+''
      else [CHR ''%'', ''0123456789ABCDEF'' ! ((of_char c :: nat) div 16),
            ''0123456789ABCDEF'' ! ((of_char c :: nat) mod 16)])"

definition urlencode :: "string \<Rightarrow> string" where
  "urlencode s = concat (map urlencode_byte s)"

definition usp_toString :: "URLSearchParams \<Rightarrow> string" where
  "usp_toString l = join ''&'' (map (\<lambda>e. urlencode (fst e) @ ''='' @ urlencode (snd e)) l)"

section \<open>Tags and query building (algolia/helpers.ts)\<close>

type_synonym Tag = string

definition createAuthorTag :: "string \<Rightarrow> Tag" where
  "createAuthorTag username = ''author_'' @ username"

definition createStoryTag :: "int \<Rightarrow> Tag" where
  "createStoryTag storyId = ''story_'' @ number_toString storyId"

definition STORY :: Tag where "STORY = ''story''"
definition COMMENT :: Tag where "COMMENT = ''comment''"
definition POLL :: Tag where "POLL = ''poll''"
definition POLLOPT :: Tag where "POLLOPT = ''pollopt''"
definition SHOW_HN :: Tag where "SHOW_HN = ''show_hn''"
definition ASK_HN :: Tag where "ASK_HN = ''ask_hn''"
definition FRONT_PAGE :: Tag where "FRONT_PAGE = ''front_page''"
definition JOB :: Tag where "JOB = ''job''"

text \<open>
  Class \<open>OrTags\<close>: the constructor stores the array it is given, \<open>from\<close> calls
  the constructor, \<open>toString\<close> wraps the comma-join in parentheses. Neither the
  constructor nor \<open>from\<close> has a check or a \<open>throw\<close>.
\<close>

datatype OrTags = OrTags (or_tags: "Tag list")

definition OrTags_from :: "Tag list \<Rightarrow> OrTags" where
  "OrTags_from ts = OrTags ts"

definition OrTags_toString :: "OrTags \<Rightarrow> string" where
  "OrTags_toString g = ''('' @ join '','' (or_tags g) @ '')''"

text \<open>An element of \<open>SearchParams.tags\<close> is a tag string or an \<open>OrTags\<close> object;
  \<open>join\<close> converts each element with its \<open>toString\<close>.\<close>

datatype tag_item = TagStr Tag | TagOr OrTags

fun tag_item_toString :: "tag_item \<Rightarrow> string" where
  "tag_item_toString (TagStr t) = t"
| "tag_item_toString (TagOr g) = OrTags_toString g"

record SearchParams =
  query :: "string option"
  tags :: "tag_item list option"
  numericFilters :: "string list option"
  page :: "int option"
  hitsPerPage :: "int option"
  sortByDate :: "bool option"
  optionalWords :: "string list option"
  filters :: "string option"
  restrictSearchableAttributes :: "string list option"

definition no_params :: SearchParams where
  "no_params = \<lparr>query = None, tags = None, numericFilters = None, page = None,
     hitsPerPage = None, sortByDate = None, optionalWords = None, filters = None,
     restrictSearchableAttributes = None\<rparr>"

text \<open>
  \<open>buildSearchParams\<close>, one step per \<open>if\<close> of the source and in the source's
  order. A string is truthy when it is non-empty; an array is always truthy, so the
  list conditions are the length checks.
\<close>

definition set_query :: "SearchParams \<Rightarrow> URLSearchParams \<Rightarrow> URLSearchParams" where
  "set_query p sp =
     (case query p of Some q \<Rightarrow> if q \<noteq> [] then usp_set ''query'' q sp else sp | None \<Rightarrow> sp)"

definition set_tags :: "SearchParams \<Rightarrow> URLSearchParams \<Rightarrow> URLSearchParams" where
  "set_tags p sp =
     (case tags p of
        Some ts \<Rightarrow> if length ts > 0 then usp_set ''tags'' (join '','' (map tag_item_toString ts)) sp
                   else sp
      | None \<Rightarrow> sp)"

definition set_numericFilters :: "SearchParams \<Rightarrow> URLSearchParams \<Rightarrow> URLSearchParams" where
  "set_numericFilters p sp =
     (case numericFilters p of
        Some fs \<Rightarrow> if length fs > 0 then usp_set ''numericFilters'' (join '','' fs) sp else sp
      | None \<Rightarrow> sp)"

definition set_optionalWords :: "SearchParams \<Rightarrow> URLSearchParams \<Rightarrow> URLSearchParams" where
  "set_optionalWords p sp =
     (case optionalWords p of
        Some ws \<Rightarrow> if length ws > 0 then usp_set ''optionalWords'' (join '' '' ws) sp else sp
      | None \<Rightarrow> sp)"

definition set_page :: "SearchParams \<Rightarrow> URLSearchParams \<Rightarrow> URLSearchParams" where
  "set_page p sp =
     (case page p of Some n \<Rightarrow> usp_set ''page'' (number_toString n) sp | None \<Rightarrow> sp)"

definition set_filters :: "SearchParams \<Rightarrow> URLSearchParams \<Rightarrow> URLSearchParams" where
  "set_filters p sp =
     (case filters p of Some f \<Rightarrow> if f \<noteq> [] then usp_set ''filters'' f sp else sp | None \<Rightarrow> sp)"

definition set_hitsPerPage :: "SearchParams \<Rightarrow> URLSearchParams \<Rightarrow> URLSearchParams" where
  "set_hitsPerPage p sp =
     (case hitsPerPage p of
        Some n \<Rightarrow> usp_set ''hitsPerPage'' (number_toString n) sp | None \<Rightarrow> sp)"

definition set_restrict :: "SearchParams \<Rightarrow> URLSearchParams \<Rightarrow> URLSearchParams" where
  "set_restrict p sp =
     (case restrictSearchableAttributes p of
        Some as \<Rightarrow> if length as > 0 then usp_set ''restrictSearchableAttributes'' (join '','' as) sp
                   else usp_set ''restrictSearchableAttributes'' ''title'' sp
      | None \<Rightarrow> usp_set ''restrictSearchableAttributes'' ''title'' sp)"

definition searchParams_entries :: "SearchParams \<Rightarrow> URLSearchParams" where
  "searchParams_entries p =
     set_restrict p (set_hitsPerPage p (set_filters p (set_page p (set_optionalWords p
       (set_numericFilters p (set_tags p (set_query p [])))))))"

definition buildSearchParams :: "SearchParams \<Rightarrow> string" where
  "buildSearchParams p = usp_toString (searchParams_entries p)"

section \<open>The search client (algolia/mod.ts): request parameters\<close>

text \<open>
  The object \<open>searchParams\<close> that \<open>HNSearchClient.search\<close> builds from its
  argument: the argument's fields, with \<open>sortByDate\<close> and \<open>hitsPerPage\<close>
  replaced.
\<close>

definition effective_hitsPerPage :: "int option \<Rightarrow> int" where
  "effective_hitsPerPage h =
     (case h of None \<Rightarrow> 100
      | Some n \<Rightarrow> if n < 0 then 1 else if n > 100 then 100 else n)"

definition search_params :: "SearchParams \<Rightarrow> SearchParams" where
  "search_params params =
     params\<lparr>sortByDate := Some (case sortByDate params of None \<Rightarrow> True | Some b \<Rightarrow> b),
            hitsPerPage := Some (effective_hitsPerPage (hitsPerPage params))\<rparr>"

text \<open>The effective hitsPerPage as the specification words it: 100 when absent, 1
  when below 1, 100 when above 100, the input otherwise.\<close>

definition spec_hitsPerPage :: "int option \<Rightarrow> int" where
  "spec_hitsPerPage h =
     (case h of None \<Rightarrow> 100
      | Some n \<Rightarrow> if n < 1 then 1 else if n > 100 then 100 else n)"

record config =
  baseUrl :: string
  debug :: bool
  objDebug :: bool

definition search_url :: "config \<Rightarrow> SearchParams \<Rightarrow> string" where
  "search_url cfg params =
     (let searchParams = search_params params;
          endpoint = (if sortByDate searchParams = Some True then ''search_by_date'' else ''search'')
      in baseUrl cfg @ ''/'' @ endpoint @ ''?'' @ buildSearchParams searchParams)"

text \<open>The value that the specification gives to the key
  \<open>restrictSearchableAttributes\<close>: the comma-join of a non-empty list, the
  literal \<open>title\<close> otherwise.\<close>

definition restrict_value :: "SearchParams \<Rightarrow> string" where
  "restrict_value p =
     (case restrictSearchableAttributes p of
        None \<Rightarrow> ''title''
      | Some [] \<Rightarrow> ''title''
      | Some (a # as) \<Rightarrow> a @ concat (map (\<lambda>x. CHR '','' # x) as))"

section \<open>Hits and result objects (algolia/types.ts, algolia/objects.ts)\<close>

text \<open>
  A raw hit is a JSON object. \<open>HitData\<close> holds the fields other than
  \<open>_highlightResult\<close> and \<open>_tags\<close>; a field that the object may lack (optional
  in the type, or read behind a truthiness or \<open>??\<close> test in the classes) is an
  option, \<open>None\<close> standing for \<open>undefined\<close>.
\<close>

record HighlightResult =
  matchLevel :: string
  matchedWords :: "string list"
  hl_value :: string
  fullyHighlighted :: "bool option"

record HitData =
  author :: string
  created_at :: "string option"
  created_at_i :: int
  objectID :: string
  updated_at :: string
  children :: "int list option"
  comment_text :: "string option"
  num_comments :: "int option"
  parent_id :: "int option"
  parts :: "int list option"
  points :: "int option"
  story_id :: "int option"
  story_text :: "string option"
  story_title :: "string option"
  title :: "string option"
  url :: "string option"
  job_text :: "string option"

record Hit =
  highlightResult :: "(string \<times> HighlightResult) list"
  hit_tags :: "string list"
  hit_data :: HitData

definition filterHighlightedFields ::
    "(string \<times> HighlightResult) list \<Rightarrow> (string \<times> HighlightResult) list" where
  "filterHighlightedFields highlights = filter (\<lambda>e. matchLevel (snd e) \<noteq> ''none'') highlights"

text \<open>
  The fields of a \<open>HitObject\<close>. The five subclasses call the base constructor and
  assign the same \<open>tags\<close> and \<open>data\<close> again, so an object of any class is its
  class together with these fields. Console output (\<open>reportCreateDebug\<close>) is
  not part of the model.
\<close>

record HitObject_fields =
  o_debug :: bool
  o_highlight :: "(string \<times> HighlightResult) list"
  o_tags :: "string list"
  o_data :: HitData

definition new_HitObject :: "Hit \<Rightarrow> bool \<Rightarrow> HitObject_fields" where
  "new_HitObject hit dbg =
     \<lparr>o_debug = dbg, o_highlight = filterHighlightedFields (highlightResult hit),
      o_tags = hit_tags hit, o_data = hit_data hit\<rparr>"

datatype hn_object =
    HitObject HitObject_fields
  | StoryObject HitObject_fields
  | CommentObject HitObject_fields
  | PollObject HitObject_fields
  | PollOptionObject HitObject_fields
  | JobObject HitObject_fields

fun fields_of :: "hn_object \<Rightarrow> HitObject_fields" where
  "fields_of (HitObject f) = f"
| "fields_of (StoryObject f) = f"
| "fields_of (CommentObject f) = f"
| "fields_of (PollObject f) = f"
| "fields_of (PollOptionObject f) = f"
| "fields_of (JobObject f) = f"

text \<open>The getter \<open>type\<close>, overridden in each subclass.\<close>

fun type_of :: "hn_object \<Rightarrow> string" where
  "type_of (HitObject f) = ''hit''"
| "type_of (StoryObject f) = ''story''"
| "type_of (CommentObject f) = ''comment''"
| "type_of (PollObject f) = ''poll''"
| "type_of (PollOptionObject f) = ''pollopt''"
| "type_of (JobObject f) = ''job''"

definition getPermaLink :: "string \<Rightarrow> string" where
  "getPermaLink oid = ''https://news.ycombinator.com/item?id='' @ oid"

definition permaLink :: "hn_object \<Rightarrow> string" where
  "permaLink ob = getPermaLink (objectID (o_data (fields_of ob)))"

text \<open>
  The getter \<open>createdAt\<close>. \<open>parseISO\<close> is the function of the library date-fns
  and is a parameter here; it returns a \<open>Date\<close> object for every string, and a
  \<open>Date\<close> object is either a point in time or the value Invalid Date. \<open>None\<close> is
  JavaScript's \<open>null\<close>.
\<close>

datatype js_date = Date int | InvalidDate

definition createdAt :: "(string \<Rightarrow> js_date) \<Rightarrow> hn_object \<Rightarrow> js_date option" where
  "createdAt parseISO ob =
     (case created_at (o_data (fields_of ob)) of
        None \<Rightarrow> None
      | Some s \<Rightarrow> if s \<noteq> [] then Some (parseISO s) else None)"

text \<open>
  \<open>unescapeHtml\<close>: the library function \<open>unescape\<close> of @std/html (a parameter
  here), then \<open>replace(/<p>|<\/p>/g, "")\<close>: one scan from the left that drops
  every match and goes on behind it.
\<close>

function strip_p :: "string \<Rightarrow> string" where
  "strip_p s =
     (if s = [] then []
      else if take 3 s = ''<p>'' then strip_p (drop 3 s)
      else if take 4 s = ''</p>'' then strip_p (drop 4 s)
      else hd s # strip_p (tl s))"
  by pat_completeness auto
termination
  by (relation "measure length") auto

declare strip_p.simps [simp del]

definition unescapeHtml :: "(string \<Rightarrow> string) \<Rightarrow> string \<Rightarrow> string" where
  "unescapeHtml unescape text = strip_p (unescape text)"

text \<open>The getters \<open>commentText\<close> and \<open>isRootComment\<close> of class
  \<open>CommentObject\<close>, as functions of the object's fields.\<close>

definition commentText :: "(string \<Rightarrow> string) \<Rightarrow> HitObject_fields \<Rightarrow> string" where
  "commentText unescape this =
     unescapeHtml unescape (case comment_text (o_data this) of None \<Rightarrow> [] | Some t \<Rightarrow> t)"

definition isRootComment :: "HitObject_fields \<Rightarrow> bool" where
  "isRootComment this = (parent_id (o_data this) = story_id (o_data this))"

section \<open>The search client (algolia/mod.ts): request, response, normalisation\<close>

text \<open>The callback of \<open>res.hits.map\<close>: the first of the five tests that succeeds
  chooses the class.\<close>

definition normalize :: "bool \<Rightarrow> Hit \<Rightarrow> hn_object" where
  "normalize dbg hit =
     (if STORY \<in> set (hit_tags hit) then StoryObject (new_HitObject hit dbg)
      else if COMMENT \<in> set (hit_tags hit) then CommentObject (new_HitObject hit dbg)
      else if POLL \<in> set (hit_tags hit) then PollObject (new_HitObject hit dbg)
      else if POLLOPT \<in> set (hit_tags hit) then PollOptionObject (new_HitObject hit dbg)
      else if JOB \<in> set (hit_tags hit) then JobObject (new_HitObject hit dbg)
      else HitObject (new_HitObject hit dbg))"

text \<open>The priority order as the specification words it: the first tag of the list
  story, comment, poll, pollopt, job that the record carries names the variant, and
  the generic variant is the fallback.\<close>

definition spec_kind :: "string list \<Rightarrow> string" where
  "spec_kind ts =
     (case find (\<lambda>t. t \<in> set ts) [''story'', ''comment'', ''poll'', ''pollopt'', ''job''] of
        Some t \<Rightarrow> t
      | None \<Rightarrow> ''hit'')"

record AlgoliaResponse =
  hits :: "Hit list"
  res_hitsPerPage :: int
  nbHits :: int
  nbPages :: int
  res_page :: int
  processingTimeMS :: int
  serverTimeMS :: int

record response_meta =
  meta_hitsPerPage :: int
  numberOfHits :: int
  numberOfPages :: int
  currentPage :: int
  timeMsProcessing :: int
  timeMsServer :: int

record SearchResponse =
  meta :: response_meta
  data :: "hn_object list"

text \<open>
  The network. A fetch either rejects (no response) or resolves to a response with
  a status, a status text and a body; \<open>response.ok\<close> is true for the statuses 200
  to 299; \<open>response.json()\<close> rejects when the body is not JSON (\<open>None\<close>). The
  world holds the server (what the n-th request of the run receives), the URLs
  requested so far and the reading of \<open>Date.now()\<close> in milliseconds. Request
  headers and console output are not part of the model.
\<close>

record http_response =
  status :: int
  statusText :: string
  json_body :: "AlgoliaResponse option"

definition ok :: "http_response \<Rightarrow> bool" where
  "ok r = (200 \<le> status r \<and> status r \<le> 299)"

datatype fetch_result = Rejected | Resolved http_response

record world =
  server :: "nat \<Rightarrow> string \<Rightarrow> fetch_result"
  requests :: "string list"
  now_ms :: int

datatype error = Error string | TypeError | SyntaxError

definition fetch :: "string \<Rightarrow> world \<Rightarrow> fetch_result \<times> world" where
  "fetch u w = (server w (length (requests w)) u, w\<lparr>requests := requests w @ [u]\<rparr>)"

definition search_result :: "config \<Rightarrow> http_response \<Rightarrow> error + SearchResponse" where
  "search_result cfg response =
     (if \<not> ok response
      then Inl (Error (''HTTP error! status: '' @ number_toString (status response)))
      else case json_body response of
             None \<Rightarrow> Inl SyntaxError
           | Some res \<Rightarrow>
               Inr \<lparr>meta = \<lparr>meta_hitsPerPage = res_hitsPerPage res, numberOfHits = nbHits res,
                             numberOfPages = nbPages res, currentPage = res_page res,
                             timeMsProcessing = processingTimeMS res,
                             timeMsServer = serverTimeMS res\<rparr>,
                    data = map (normalize (objDebug cfg)) (hits res)\<rparr>)"

definition search :: "config \<Rightarrow> SearchParams \<Rightarrow> world \<Rightarrow> (error + SearchResponse) \<times> world" where
  "search cfg params w =
     (case fetch (search_url cfg params) w of
        (Rejected, w') \<Rightarrow> (Inl TypeError, w')
      | (Resolved response, w') \<Rightarrow> (search_result cfg response, w'))"

section \<open>The facade (mod.ts): frontPage and whoIsHiring\<close>

text \<open>The object that \<open>frontPage\<close> passes to \<open>search\<close>; \<open>now\<close> is the reading
  of \<open>Date.now()\<close>.\<close>

definition frontPage_params :: "int \<Rightarrow> SearchParams \<Rightarrow> SearchParams" where
  "frontPage_params now params =
     (let oneWeekAgo = now div 1000 - 7 * 24 * 60 * 60;
          nf = [''created_at_i>='' @ number_toString oneWeekAgo]
      in params\<lparr>tags := Some [TagStr FRONT_PAGE, TagStr STORY], numericFilters := Some nf\<rparr>)"

definition frontPage :: "config \<Rightarrow> SearchParams \<Rightarrow> world \<Rightarrow> (error + SearchResponse) \<times> world" where
  "frontPage cfg params w = search cfg (frontPage_params (now_ms w) params) w"

text \<open>\<open>whoIsHiring\<close>: the two objects passed to \<open>search\<close>, and the method. In a
  template literal an absent \<open>story_id\<close> prints as \<open>undefined\<close>.\<close>

definition whoIsHiring_first :: SearchParams where
  "whoIsHiring_first =
     no_params\<lparr>tags := Some [TagStr STORY, TagStr (createAuthorTag ''whoishiring'')],
               hitsPerPage := Some 1\<rparr>"

definition id_toString :: "int option \<Rightarrow> string" where
  "id_toString i = (case i of None \<Rightarrow> ''undefined'' | Some n \<Rightarrow> number_toString n)"

definition whoIsHiring_second :: "SearchParams \<Rightarrow> hn_object \<Rightarrow> SearchParams" where
  "whoIsHiring_second params story =
     params\<lparr>tags := Some [TagStr COMMENT],
            filters := Some (''parent_id='' @ id_toString (story_id (o_data (fields_of story)))),
            hitsPerPage := Some 100\<rparr>"

definition whoIsHiring :: "config \<Rightarrow> SearchParams \<Rightarrow> world \<Rightarrow> (error + SearchResponse) \<times> world" where
  "whoIsHiring cfg params w =
     (case search cfg whoIsHiring_first w of
        (Inl e, w1) \<Rightarrow> (Inl e, w1)
      | (Inr res, w1) \<Rightarrow>
          (case data res of
             [] \<Rightarrow> (Inr res, w1)
           | story # rest \<Rightarrow> search cfg (whoIsHiring_second params story) w1))"

section \<open>Reference forms for the statements\<close>

text \<open>
  The query string written out. \<open>nonempty\<close> is the test of the builder for a
  string or a list (present and not empty); \<open>opt_entry\<close> is the pair that a
  present value contributes to the \<open>URLSearchParams\<close> object; \<open>url_pair\<close> is
  the text \<open>name=value&\<close> that it contributes to the query string, the value
  percent-encoded. \<open>first_lookup_url\<close> is the URL of the lookup of the latest
  story of the account whoishiring.
\<close>

definition nonempty :: "'a list option \<Rightarrow> 'a list option" where
  "nonempty x = (case x of None \<Rightarrow> None | Some [] \<Rightarrow> None | Some (a # as) \<Rightarrow> Some (a # as))"

definition opt_entry :: "string \<Rightarrow> string option \<Rightarrow> URLSearchParams" where
  "opt_entry k v = (case v of None \<Rightarrow> [] | Some s \<Rightarrow> [(k, s)])"

definition url_pair :: "string \<Rightarrow> string option \<Rightarrow> string" where
  "url_pair k v = (case v of None \<Rightarrow> [] | Some s \<Rightarrow> k @ ''='' @ urlencode s @ ''&'')"

definition first_lookup_url :: "config \<Rightarrow> string" where
  "first_lookup_url cfg =
     baseUrl cfg @
     ''/search_by_date?tags=story%2Cauthor_whoishiring&hitsPerPage=1&restrictSearchableAttributes=title''"

text \<open>
  Removal of the paragraph tags, stated on the text and not as a scan:
  \<open>has_tag s\<close> says that \<open><p>\<close> or \<open></p>\<close> occurs somewhere in \<open>s\<close>, and
  \<open>strips_to s r\<close> says that \<open>s\<close> is cut at paragraph tags into pieces that hold
  no tag, and that \<open>r\<close> is these pieces put together.
\<close>

definition starts_with_tag :: "string \<Rightarrow> bool" where
  "starts_with_tag s = (take 3 s = ''<p>'' \<or> take 4 s = ''</p>'')"

fun has_tag :: "string \<Rightarrow> bool" where
  "has_tag [] = False"
| "has_tag (c # cs) = (starts_with_tag (c # cs) \<or> has_tag cs)"

inductive strips_to :: "string \<Rightarrow> string \<Rightarrow> bool" where
  no_tag: "\<not> has_tag s \<Longrightarrow> strips_to s s"
| open_tag: "\<not> has_tag a \<Longrightarrow> strips_to b r \<Longrightarrow> strips_to (a @ ''<p>'' @ b) (a @ r)"
| close_tag: "\<not> has_tag a \<Longrightarrow> strips_to b r \<Longrightarrow> strips_to (a @ ''</p>'' @ b) (a @ r)"

section \<open>Concrete values for the examples\<close>

text \<open>The configuration that the constructor of \<open>HNSearchClient\<close> builds from
  no options, a world whose server answers every request with one response, and a
  story of the account whoishiring.\<close>

definition default_config :: config where
  "default_config =
     \<lparr>baseUrl = ''https://hn.algolia.com/api/v1'', debug = False, objDebug = False\<rparr>"

definition example_world :: "http_response \<Rightarrow> world" where
  "example_world r = \<lparr>server = (\<lambda>n u. Resolved r), requests = [], now_ms = 1700000000123\<rparr>"

definition example_data :: "int \<Rightarrow> HitData" where
  "example_data i =
     \<lparr>author = ''whoishiring'', created_at = Some ''2024-01-02T16:00:00Z'',
      created_at_i = 1704211200, objectID = number_toString i,
      updated_at = ''2024-01-03T00:00:00Z'', children = None, comment_text = None,
      num_comments = None, parent_id = None, parts = None, points = None,
      story_id = Some i, story_text = None, story_title = None,
      title = Some ''Ask HN: Who is hiring?'', url = None, job_text = None\<rparr>"

definition example_hit :: "int \<Rightarrow> Hit" where
  "example_hit i =
     \<lparr>highlightResult = [], hit_tags = [''story'', ''author_whoishiring''],
      hit_data = example_data i\<rparr>"

definition example_envelope :: "Hit list \<Rightarrow> AlgoliaResponse" where
  "example_envelope hs =
     \<lparr>hits = hs, res_hitsPerPage = 1, nbHits = int (length hs), nbPages = 1, res_page = 0,
      processingTimeMS = 1, serverTimeMS = 2\<rparr>"

definition example_response :: "int \<Rightarrow> string \<Rightarrow> Hit list \<Rightarrow> http_response" where
  "example_response st txt hs =
     \<lparr>status = st, statusText = txt, json_body = Some (example_envelope hs)\<rparr>"

section \<open>Properties\<close>

lemma map_of_filter_other:
  "k' \<noteq> k \<Longrightarrow> map_of (filter (\<lambda>e. fst e \<noteq> k) l) k' = map_of l k'"
  by (induction l) auto

lemma map_of_usp_set:
  "map_of (usp_set k v l) k' = (if k' = k then Some v else map_of l k')"
  by (induction l) (auto simp: map_of_filter_other)

lemma usp_set_absent:
  "k \<notin> fst ` set l \<Longrightarrow> usp_set k v l = l @ [(k, v)]"
  by (induction l) auto

lemma keys_usp_set:
  "fst ` set (usp_set k v l) = insert k (fst ` set l)"
proof (induction l)
  case Nil
  show ?case by simp
next
  case (Cons e l)
  have "fst ` {x \<in> set l. fst x \<noteq> k} \<union> {k} = fst ` set l \<union> {k}"
    by force
  with Cons show ?case
    by (cases e) auto
qed

lemma join_Cons:
  "join sep (x # xs) = x @ concat (map (\<lambda>y. sep @ y) xs)"
proof -
  have "foldl (\<lambda>acc y. acc @ sep @ y) a xs = a @ concat (map (\<lambda>y. sep @ y) xs)" for a
    by (induction xs arbitrary: a) simp_all
  then show ?thesis by (simp add: join_def)
qed

lemma join_snoc:
  "xs \<noteq> [] \<Longrightarrow> join sep (xs @ [y]) = join sep xs @ sep @ y"
  by (cases xs) (simp_all add: join_Cons)

lemma join_comma_Cons:
  "join '','' (x # xs) = x @ concat (map (\<lambda>y. CHR '','' # y) xs)"
proof -
  have "(\<lambda>y. '','' @ y) = (\<lambda>y. CHR '','' # y)" by (rule ext) simp
  then show ?thesis by (simp only: join_Cons)
qed

subsection \<open>Names set by the query builder\<close>

lemma keys_set_query: "fst ` set (set_query p sp) \<subseteq> insert ''query'' (fst ` set sp)"
  by (auto simp: set_query_def keys_usp_set split: option.split)

lemma keys_set_tags: "fst ` set (set_tags p sp) \<subseteq> insert ''tags'' (fst ` set sp)"
  by (auto simp: set_tags_def keys_usp_set split: option.split)

lemma keys_set_numericFilters:
  "fst ` set (set_numericFilters p sp) \<subseteq> insert ''numericFilters'' (fst ` set sp)"
  by (auto simp: set_numericFilters_def keys_usp_set split: option.split)

lemma keys_set_optionalWords:
  "fst ` set (set_optionalWords p sp) \<subseteq> insert ''optionalWords'' (fst ` set sp)"
  by (auto simp: set_optionalWords_def keys_usp_set split: option.split)

lemma keys_set_page: "fst ` set (set_page p sp) \<subseteq> insert ''page'' (fst ` set sp)"
  by (auto simp: set_page_def keys_usp_set split: option.split)

lemma keys_set_filters: "fst ` set (set_filters p sp) \<subseteq> insert ''filters'' (fst ` set sp)"
  by (auto simp: set_filters_def keys_usp_set split: option.split)

lemma keys_set_hitsPerPage:
  "fst ` set (set_hitsPerPage p sp) \<subseteq> insert ''hitsPerPage'' (fst ` set sp)"
  by (auto simp: set_hitsPerPage_def keys_usp_set split: option.split)

lemma restrict_key_fresh:
  "''restrictSearchableAttributes'' \<notin>
     fst ` set (set_hitsPerPage p (set_filters p (set_page p (set_optionalWords p
       (set_numericFilters p (set_tags p (set_query p [])))))))"
proof -
  let ?r = "''restrictSearchableAttributes''"
  have 1: "?r \<notin> fst ` set (set_query p [])"
    using keys_set_query [of p "[]"] by auto
  have 2: "?r \<notin> fst ` set (set_tags p (set_query p []))"
    using 1 keys_set_tags [of p "set_query p []"] by auto
  have 3: "?r \<notin> fst ` set (set_numericFilters p (set_tags p (set_query p [])))"
    using 2 keys_set_numericFilters [of p "set_tags p (set_query p [])"] by auto
  have 4: "?r \<notin> fst ` set (set_optionalWords p (set_numericFilters p (set_tags p (set_query p []))))"
    using 3 keys_set_optionalWords [of p "set_numericFilters p (set_tags p (set_query p []))"]
    by auto
  have 5: "?r \<notin> fst ` set (set_page p (set_optionalWords p (set_numericFilters p
             (set_tags p (set_query p [])))))"
    using 4 keys_set_page [of p "set_optionalWords p (set_numericFilters p
             (set_tags p (set_query p [])))"]
    by auto
  have 6: "?r \<notin> fst ` set (set_filters p (set_page p (set_optionalWords p
             (set_numericFilters p (set_tags p (set_query p []))))))"
    using 5 keys_set_filters [of p "set_page p (set_optionalWords p (set_numericFilters p
             (set_tags p (set_query p []))))"]
    by auto
  show ?thesis
    using 6 keys_set_hitsPerPage [of p "set_filters p (set_page p (set_optionalWords p
             (set_numericFilters p (set_tags p (set_query p [])))))"]
    by auto
qed

lemma urlencode_restrict_key:
  "urlencode ''restrictSearchableAttributes'' = ''restrictSearchableAttributes''"
  by (simp add: urlencode_def urlencode_byte_def urlencoded_safe_def)

lemma usp_toString_snoc:
  "\<exists>pre. usp_toString (l @ [(k, v)]) = pre @ urlencode k @ ''='' @ urlencode v"
proof (cases l)
  case Nil
  then show ?thesis by (simp add: usp_toString_def join_def)
next
  case (Cons e es)
  then have "map (\<lambda>e. urlencode (fst e) @ ''='' @ urlencode (snd e)) l \<noteq> []" by simp
  then show ?thesis
    unfolding usp_toString_def by (simp add: join_snoc)
qed

lemma set_restrict_value:
  "set_restrict p sp = usp_set ''restrictSearchableAttributes'' (restrict_value p) sp"
  by (simp add: set_restrict_def restrict_value_def join_comma_Cons split: option.split list.split)

subsection \<open>hitsPerPage\<close>

lemma hitsPerPage_emitted:
  "map_of (searchParams_entries (search_params params)) ''hitsPerPage'' =
     Some (number_toString (effective_hitsPerPage (hitsPerPage params)))"
  by (simp add: searchParams_entries_def search_params_def set_restrict_value set_hitsPerPage_def
      map_of_usp_set)

lemma effective_hitsPerPage_range:
  "h \<noteq> Some 0 \<Longrightarrow> 1 \<le> effective_hitsPerPage h \<and> effective_hitsPerPage h \<le> 100"
  by (auto simp: effective_hitsPerPage_def split: option.split)

lemma effective_hitsPerPage_spec:
  "(effective_hitsPerPage h = spec_hitsPerPage h) = (h \<noteq> Some 0)"
  by (auto simp: effective_hitsPerPage_def spec_hitsPerPage_def split: option.split)

text \<open>
  Claim C1. The hitsPerPage that \<open>search\<close> sends is 100 when the input is absent, 1
  when it is below 1, 100 when it is above 100, so that it always lies between 1 and
  100; in particular the input 0 maps to 1. The source tests \<open>hitsPerPage < 0\<close>:
  the input 0 passes the clamp unchanged, the pair \<open>hitsPerPage=0\<close> is what the
  query string carries, and the request URL of a call with only \<open>hitsPerPage: 0\<close>
  ends in \<open>hitsPerPage=0&restrictSearchableAttributes=title\<close>. (Every other input is
  sent as the specification says, within 1 and 100: \<open>hitsPerPage_emitted\<close>,
  \<open>effective_hitsPerPage_range\<close>, \<open>effective_hitsPerPage_spec\<close>.)
\<close>

theorem search_hitsPerPage_zero:
  "effective_hitsPerPage (Some 0) = 0
   \<and> map_of (searchParams_entries (search_params (params\<lparr>hitsPerPage := Some 0\<rparr>))) ''hitsPerPage''
       = Some ''0''
   \<and> search_url cfg (no_params\<lparr>hitsPerPage := Some 0\<rparr>) =
       baseUrl cfg @ ''/search_by_date?hitsPerPage=0&restrictSearchableAttributes=title''"
proof (intro conjI)
  show "effective_hitsPerPage (Some 0) = 0"
    by (simp add: effective_hitsPerPage_def)
  show "map_of (searchParams_entries (search_params (params\<lparr>hitsPerPage := Some 0\<rparr>))) ''hitsPerPage''
       = Some ''0''"
    by (simp add: searchParams_entries_def search_params_def set_restrict_value set_hitsPerPage_def
      map_of_usp_set effective_hitsPerPage_def number_toString_def digits.simps)
  show "search_url cfg (no_params\<lparr>hitsPerPage := Some 0\<rparr>) =
       baseUrl cfg @ ''/search_by_date?hitsPerPage=0&restrictSearchableAttributes=title''"
    by (simp add: search_url_def search_params_def no_params_def effective_hitsPerPage_def
        buildSearchParams_def searchParams_entries_def set_hitsPerPage_def set_filters_def
        set_page_def set_optionalWords_def set_numericFilters_def set_tags_def set_query_def
        set_restrict_def usp_toString_def join_def number_toString_def urlencode_def
        urlencode_byte_def urlencoded_safe_def digits.simps)
qed

subsection \<open>restrictSearchableAttributes\<close>

text \<open>
  Claim C6. For every SearchParams value the output of the query builder contains
  the key \<open>restrictSearchableAttributes\<close>: its value is the comma-join of the listed
  attribute names when the list is present and non-empty, and the literal
  \<open>title\<close> when the list is omitted or empty. The pair is in the
  \<open>URLSearchParams\<close> object with that value, and the query string ends with it.
\<close>

theorem buildSearchParams_restrict:
  "map_of (searchParams_entries p) ''restrictSearchableAttributes'' = Some (restrict_value p)
   \<and> (\<exists>pre. buildSearchParams p =
          pre @ ''restrictSearchableAttributes='' @ urlencode (restrict_value p))"
proof
  show "map_of (searchParams_entries p) ''restrictSearchableAttributes'' = Some (restrict_value p)"
    by (simp add: searchParams_entries_def set_restrict_value map_of_usp_set)
next
  obtain pre where "usp_toString (set_hitsPerPage p (set_filters p (set_page p (set_optionalWords p
       (set_numericFilters p (set_tags p (set_query p [])))))) @ [(''restrictSearchableAttributes'', restrict_value p)])
     = pre @ urlencode ''restrictSearchableAttributes'' @ ''='' @ urlencode (restrict_value p)"
    using usp_toString_snoc by blast
  then have "buildSearchParams p = pre @ ''restrictSearchableAttributes='' @ urlencode (restrict_value p)"
    unfolding buildSearchParams_def searchParams_entries_def set_restrict_value
    by (simp only: usp_set_absent [OF restrict_key_fresh] urlencode_restrict_key append_assoc) simp
  then show "\<exists>pre. buildSearchParams p =
          pre @ ''restrictSearchableAttributes='' @ urlencode (restrict_value p)"
    by blast
qed

subsection \<open>The query string in full\<close>

lemma fresh_opt_entry: "k \<noteq> k' \<Longrightarrow> k \<notin> fst ` set (opt_entry k' v)"
  by (cases v) (simp_all add: opt_entry_def)

lemma usp_set_fresh_Some:
  "k \<notin> fst ` set sp \<Longrightarrow> usp_set k v sp = sp @ opt_entry k (Some v)"
  by (simp add: usp_set_absent opt_entry_def)

lemma set_query_entry:
  "set_query p [] = opt_entry ''query'' (nonempty (query p))"
  by (simp add: set_query_def nonempty_def opt_entry_def split: option.split list.split)

lemma set_tags_entry:
  "''tags'' \<notin> fst ` set sp \<Longrightarrow>
   set_tags p sp =
     sp @ opt_entry ''tags'' (map_option (\<lambda>ts. join '','' (map tag_item_toString ts)) (nonempty (tags p)))"
  by (simp add: set_tags_def usp_set_absent nonempty_def opt_entry_def
      split: option.split list.split)

lemma set_numericFilters_entry:
  "''numericFilters'' \<notin> fst ` set sp \<Longrightarrow>
   set_numericFilters p sp =
     sp @ opt_entry ''numericFilters'' (map_option (join '','') (nonempty (numericFilters p)))"
  by (simp add: set_numericFilters_def usp_set_absent nonempty_def opt_entry_def
      split: option.split list.split)

lemma set_optionalWords_entry:
  "''optionalWords'' \<notin> fst ` set sp \<Longrightarrow>
   set_optionalWords p sp =
     sp @ opt_entry ''optionalWords'' (map_option (join '' '') (nonempty (optionalWords p)))"
  by (simp add: set_optionalWords_def usp_set_absent nonempty_def opt_entry_def
      split: option.split list.split)

lemma set_page_entry:
  "''page'' \<notin> fst ` set sp \<Longrightarrow>
   set_page p sp = sp @ opt_entry ''page'' (map_option number_toString (page p))"
  by (simp add: set_page_def usp_set_absent opt_entry_def split: option.split)

lemma set_filters_entry:
  "''filters'' \<notin> fst ` set sp \<Longrightarrow>
   set_filters p sp = sp @ opt_entry ''filters'' (nonempty (filters p))"
  by (simp add: set_filters_def usp_set_absent nonempty_def opt_entry_def
      split: option.split list.split)

lemma set_hitsPerPage_entry:
  "''hitsPerPage'' \<notin> fst ` set sp \<Longrightarrow>
   set_hitsPerPage p sp = sp @ opt_entry ''hitsPerPage'' (map_option number_toString (hitsPerPage p))"
  by (simp add: set_hitsPerPage_def usp_set_absent opt_entry_def split: option.split)

lemma searchParams_entries_in_order:
  "searchParams_entries p =
     opt_entry ''query'' (nonempty (query p))
     @ opt_entry ''tags'' (map_option (\<lambda>ts. join '','' (map tag_item_toString ts)) (nonempty (tags p)))
     @ opt_entry ''numericFilters'' (map_option (join '','') (nonempty (numericFilters p)))
     @ opt_entry ''optionalWords'' (map_option (join '' '') (nonempty (optionalWords p)))
     @ opt_entry ''page'' (map_option number_toString (page p))
     @ opt_entry ''filters'' (nonempty (filters p))
     @ opt_entry ''hitsPerPage'' (map_option number_toString (hitsPerPage p))
     @ [(''restrictSearchableAttributes'', restrict_value p)]"
  unfolding searchParams_entries_def set_restrict_value set_query_entry
  by (simp add: set_tags_entry set_numericFilters_entry set_optionalWords_entry set_page_entry
      set_filters_entry set_hitsPerPage_entry usp_set_absent fresh_opt_entry image_Un)

lemma concat_sep_snoc:
  "concat (map ((@) sep) (xs @ [y])) = sep @ concat (map (\<lambda>x. x @ sep) xs) @ y"
  by (induction xs) simp_all

lemma join_snoc_all:
  "join sep (xs @ [y]) = concat (map (\<lambda>x. x @ sep) xs) @ y"
proof (cases xs)
  case Nil
  then show ?thesis by (simp add: join_def)
next
  case (Cons x xs')
  have "join sep (xs @ [y]) = join sep (x # (xs' @ [y]))"
    using Cons by simp
  also have "\<dots> = x @ concat (map ((@) sep) (xs' @ [y]))"
    by (simp only: join_Cons)
  also have "\<dots> = x @ sep @ concat (map (\<lambda>x. x @ sep) xs') @ y"
    by (simp only: concat_sep_snoc)
  also have "\<dots> = concat (map (\<lambda>x. x @ sep) xs) @ y"
    using Cons by simp
  finally show ?thesis .
qed

lemma usp_toString_snoc_all:
  "usp_toString (l @ [(k, v)]) =
     concat (map (\<lambda>e. urlencode (fst e) @ ''='' @ urlencode (snd e) @ ''&'') l)
     @ urlencode k @ ''='' @ urlencode v"
proof -
  have "usp_toString (l @ [(k, v)]) =
          join ''&'' (map (\<lambda>e. urlencode (fst e) @ ''='' @ urlencode (snd e)) l
                       @ [urlencode k @ ''='' @ urlencode v])"
    by (simp add: usp_toString_def)
  also have "\<dots> = concat (map (\<lambda>x. x @ ''&'') (map (\<lambda>e. urlencode (fst e) @ ''='' @ urlencode (snd e)) l))
                   @ urlencode k @ ''='' @ urlencode v"
    by (simp only: join_snoc_all)
  finally show ?thesis by (simp add: comp_def)
qed

lemma urlencode_keys:
  "urlencode ''query'' = ''query''"
  "urlencode ''tags'' = ''tags''"
  "urlencode ''numericFilters'' = ''numericFilters''"
  "urlencode ''optionalWords'' = ''optionalWords''"
  "urlencode ''page'' = ''page''"
  "urlencode ''filters'' = ''filters''"
  "urlencode ''hitsPerPage'' = ''hitsPerPage''"
  by (simp_all add: urlencode_def urlencode_byte_def urlencoded_safe_def)

lemma concat_opt_entry:
  "urlencode k = k \<Longrightarrow>
   concat (map (\<lambda>e. urlencode (fst e) @ ''='' @ urlencode (snd e) @ ''&'') (opt_entry k v))
     = url_pair k v"
  by (simp add: opt_entry_def url_pair_def split: option.split)

lemma buildSearchParams_pairs:
  "buildSearchParams p =
     url_pair ''query'' (nonempty (query p))
     @ url_pair ''tags'' (map_option (\<lambda>ts. join '','' (map tag_item_toString ts)) (nonempty (tags p)))
     @ url_pair ''numericFilters'' (map_option (join '','') (nonempty (numericFilters p)))
     @ url_pair ''optionalWords'' (map_option (join '' '') (nonempty (optionalWords p)))
     @ url_pair ''page'' (map_option number_toString (page p))
     @ url_pair ''filters'' (nonempty (filters p))
     @ url_pair ''hitsPerPage'' (map_option number_toString (hitsPerPage p))
     @ ''restrictSearchableAttributes='' @ urlencode (restrict_value p)"
proof -
  let ?l = "opt_entry ''query'' (nonempty (query p))
     @ opt_entry ''tags'' (map_option (\<lambda>ts. join '','' (map tag_item_toString ts)) (nonempty (tags p)))
     @ opt_entry ''numericFilters'' (map_option (join '','') (nonempty (numericFilters p)))
     @ opt_entry ''optionalWords'' (map_option (join '' '') (nonempty (optionalWords p)))
     @ opt_entry ''page'' (map_option number_toString (page p))
     @ opt_entry ''filters'' (nonempty (filters p))
     @ opt_entry ''hitsPerPage'' (map_option number_toString (hitsPerPage p))"
  have "searchParams_entries p = ?l @ [(''restrictSearchableAttributes'', restrict_value p)]"
    by (simp add: searchParams_entries_in_order)
  then have "buildSearchParams p =
      concat (map (\<lambda>e. urlencode (fst e) @ ''='' @ urlencode (snd e) @ ''&'') ?l)
      @ urlencode ''restrictSearchableAttributes'' @ ''='' @ urlencode (restrict_value p)"
    by (simp only: buildSearchParams_def usp_toString_snoc_all)
  then show ?thesis
    by (simp only: map_append concat_append concat_opt_entry [OF urlencode_keys(1)]
        concat_opt_entry [OF urlencode_keys(2)] concat_opt_entry [OF urlencode_keys(3)]
        concat_opt_entry [OF urlencode_keys(4)] concat_opt_entry [OF urlencode_keys(5)]
        concat_opt_entry [OF urlencode_keys(6)] concat_opt_entry [OF urlencode_keys(7)]
        urlencode_restrict_key append_assoc) simp
qed

lemma urlencode_append: "urlencode (a @ b) = urlencode a @ urlencode b"
  by (simp add: urlencode_def)

lemma urlencode_Cons: "urlencode (c # s) = urlencode_byte c @ urlencode s"
  by (simp add: urlencode_def)

lemma urlencode_Nil: "urlencode [] = []"
  by (simp add: urlencode_def)

lemma urlencode_safe: "list_all urlencoded_safe s \<Longrightarrow> urlencode s = s"
  by (induction s) (simp_all add: urlencode_def urlencode_byte_def)

lemma digits_safe: "list_all urlencoded_safe (digits n)"
proof (induction n rule: digits.induct)
  case (1 n)
  have d: "urlencoded_safe (''0123456789'' ! k)" if "k < 10" for k
  proof -
    from that have "k \<in> {0, 1, 2, 3, 4, 5, 6, 7, 8, 9}" by auto
    then show ?thesis by (auto simp: urlencoded_safe_def)
  qed
  show ?case
  proof (cases "n < 10")
    case True
    then show ?thesis by (subst digits.simps) (simp add: d)
  next
    case False
    then show ?thesis using 1 by (subst digits.simps) (simp add: d)
  qed
qed

lemma urlencode_number: "urlencode (number_toString i) = number_toString i"
proof -
  have "urlencoded_safe CHR ''-''" by (simp add: urlencoded_safe_def)
  then have "list_all urlencoded_safe (number_toString i)"
    by (simp add: number_toString_def digits_safe)
  then show ?thesis by (rule urlencode_safe)
qed

lemma urlencode_id: "urlencode (id_toString x) = id_toString x"
proof (cases x)
  case None
  then show ?thesis
    by (simp add: id_toString_def urlencode_def urlencode_byte_def urlencoded_safe_def)
next
  case (Some n)
  then show ?thesis by (simp add: id_toString_def urlencode_number)
qed

lemma search_url_pieces:
  "search_url cfg params =
     baseUrl cfg @ ''/'' @ (if sortByDate params = Some False then ''search'' else ''search_by_date'')
       @ ''?'' @ buildSearchParams (search_params params)"
  by (cases "sortByDate params") (simp_all add: search_url_def search_params_def Let_def)

section \<open>Result normalisation\<close>

lemma fields_of_normalize: "fields_of (normalize dbg hit) = new_HitObject hit dbg"
  by (simp add: normalize_def)

lemma type_of_normalize: "type_of (normalize dbg hit) = spec_kind (hit_tags hit)"
  by (simp add: normalize_def spec_kind_def STORY_def COMMENT_def POLL_def POLLOPT_def JOB_def)

text \<open>
  Claim C2. For every raw hit the normalizer chooses the class by the tag list in the
  priority order story, comment, poll, pollopt, job, the first match winning; the
  generic \<open>HitObject\<close> is built exactly when none of the five tags is present;
  a hit tagged \<open>["story","front_page"]\<close> becomes a \<open>StoryObject\<close>.
\<close>

theorem normalize_priority:
  "type_of (normalize dbg hit) = spec_kind (hit_tags hit)
   \<and> ((\<exists>f. normalize dbg hit = HitObject f) =
        (set (hit_tags hit) \<inter> {''story'', ''comment'', ''poll'', ''pollopt'', ''job''} = {}))
   \<and> normalize dbg (hit\<lparr>hit_tags := [''story'', ''front_page'']\<rparr>) =
        StoryObject (new_HitObject (hit\<lparr>hit_tags := [''story'', ''front_page'']\<rparr>) dbg)"
proof (intro conjI)
  show "type_of (normalize dbg hit) = spec_kind (hit_tags hit)"
    by (rule type_of_normalize)
  show "(\<exists>f. normalize dbg hit = HitObject f) =
        (set (hit_tags hit) \<inter> {''story'', ''comment'', ''poll'', ''pollopt'', ''job''} = {})"
    by (simp add: normalize_def STORY_def COMMENT_def POLL_def POLLOPT_def JOB_def)
  show "normalize dbg (hit\<lparr>hit_tags := [''story'', ''front_page'']\<rparr>) =
        StoryObject (new_HitObject (hit\<lparr>hit_tags := [''story'', ''front_page'']\<rparr>) dbg)"
    by (simp add: normalize_def STORY_def)
qed

section \<open>OR-groups\<close>

text \<open>
  Claim C3, as amended. \<open>OrTags\<close> is built from any member list, the empty one
  included, without an error: the constructor keeps the list as it is. For every
  member list \<open>toString\<close> is the comma-joined members in parentheses; the members
  story and comment give \<open>(story,comment)\<close>.
\<close>

theorem OrTags_toString_wraps:
  "or_tags (OrTags_from ts) = ts
   \<and> OrTags_toString (OrTags_from ts) =
       ''('' @ (case ts of [] \<Rightarrow> [] | t # rest \<Rightarrow> t @ concat (map (\<lambda>x. CHR '','' # x) rest))
           @ '')''
   \<and> OrTags_toString (OrTags_from [STORY, COMMENT]) = ''(story,comment)''"
proof (intro conjI)
  show "or_tags (OrTags_from ts) = ts"
    by (simp add: OrTags_from_def)
  show "OrTags_toString (OrTags_from ts) =
       ''('' @ (case ts of [] \<Rightarrow> [] | t # rest \<Rightarrow> t @ concat (map (\<lambda>x. CHR '','' # x) rest))
           @ '')''"
  proof (cases ts)
    case Nil
    then show ?thesis by (simp add: OrTags_toString_def OrTags_from_def join_def)
  next
    case (Cons t rest)
    then show ?thesis by (simp add: OrTags_toString_def OrTags_from_def join_comma_Cons)
  qed
  show "OrTags_toString (OrTags_from [STORY, COMMENT]) = ''(story,comment)''"
    by (simp add: OrTags_toString_def OrTags_from_def join_def STORY_def COMMENT_def)
qed

text \<open>The claim as it was stated fails for the empty member list: the group is built
  and serialises to a pair of parentheses.\<close>

theorem OrTags_empty_serializes:
  "OrTags_toString (OrTags_from []) = ''()''"
  by (simp add: OrTags_toString_def OrTags_from_def join_def)

section \<open>Accessors of the result objects\<close>

lemma createdAt_cases:
  "createdAt parseISO (normalize dbg hit) =
     (case created_at (hit_data hit) of
        None \<Rightarrow> None
      | Some s \<Rightarrow> if s = [] then None else Some (parseISO s))"
  by (simp add: createdAt_def fields_of_normalize new_HitObject_def split: option.split)

text \<open>
  Claim C4. \<open>createdAt\<close> is a parsed timestamp when \<open>created_at\<close> parses and null
  when it is absent or unparsable, never an invalid date. The getter tests only
  whether the string is truthy: for the record whose \<open>created_at\<close> is the string
  \<open>not-a-date\<close> it returns the object that \<open>parseISO\<close> returns for that string,
  which is not null, whatever \<open>parseISO\<close> is (date-fns returns Invalid Date).
\<close>

theorem createdAt_unparsable_not_null:
  "createdAt parseISO
     (normalize dbg (hit\<lparr>hit_data := (hit_data hit)\<lparr>created_at := Some ''not-a-date''\<rparr>\<rparr>))
   = Some (parseISO ''not-a-date'')"
  by (simp add: createdAt_def fields_of_normalize new_HitObject_def)

lemma strip_p_Nil: "strip_p [] = []"
  by (simp add: strip_p.simps)

lemma strip_p_no_markup: "CHR ''<'' \<notin> set s \<Longrightarrow> strip_p s = s"
proof (induction s)
  case Nil
  show ?case by (rule strip_p_Nil)
next
  case (Cons a s)
  then have a: "a \<noteq> CHR ''<''" and ih: "strip_p s = s" by auto
  from a have "take 3 (a # s) \<noteq> ''<p>''" and "take 4 (a # s) \<noteq> ''</p>''"
    by (auto simp: take_Cons')
  then show ?case
    by (subst strip_p.simps) (simp only: ih list.sel if_False list.distinct)
qed

lemma strip_p_example: "strip_p ''<p>Hello &amp; bye</p><p>World'' = ''Hello &amp; byeWorld''"
  by (simp add: strip_p.simps)

lemma strip_p_step:
  assumes "\<not> starts_with_tag (c # s)"
  shows "strip_p (c # s) = c # strip_p s"
proof -
  from assms have a: "take 3 (c # s) \<noteq> ''<p>''" and b: "take 4 (c # s) \<noteq> ''</p>''"
    unfolding starts_with_tag_def by blast+
  show ?thesis
    by (subst strip_p.simps) (simp only: a b list.sel if_False list.distinct)
qed

lemma strip_p_opening: "strip_p (''<p>'' @ s) = strip_p s"
  by (subst strip_p.simps) simp

lemma strip_p_closing: "strip_p (''</p>'' @ s) = strip_p s"
  by (subst strip_p.simps) simp

lemma starts_with_tag_append: "starts_with_tag x \<Longrightarrow> starts_with_tag (x @ y)"
proof -
  assume "starts_with_tag x"
  then consider "take 3 x = ''<p>''" | "take 4 x = ''</p>''"
    by (auto simp: starts_with_tag_def)
  then show ?thesis
  proof cases
    case 1
    then have "length (take 3 x) = 3" by simp
    then have "3 \<le> length x" by simp
    with 1 show ?thesis by (simp add: starts_with_tag_def)
  next
    case 2
    then have "length (take 4 x) = 4" by simp
    then have "4 \<le> length x" by simp
    with 2 show ?thesis by (simp add: starts_with_tag_def)
  qed
qed

lemma starts_with_tag_before_lt:
  assumes "\<not> starts_with_tag (c # a)"
  shows "\<not> starts_with_tag (c # a @ CHR ''<'' # rest)"
proof (cases a)
  case Nil
  then show ?thesis by (auto simp: starts_with_tag_def)
next
  case a1: (Cons x1 a1)
  show ?thesis
  proof (cases a1)
    case Nil
    then show ?thesis using a1 by (auto simp: starts_with_tag_def)
  next
    case a2: (Cons x2 a2)
    show ?thesis
    proof (cases a2)
      case Nil
      then show ?thesis using a1 a2 assms by (auto simp: starts_with_tag_def)
    next
      case (Cons x3 a3)
      then show ?thesis using a1 a2 assms by (auto simp: starts_with_tag_def)
    qed
  qed
qed

lemma strip_p_no_tag: "\<not> has_tag s \<Longrightarrow> strip_p s = s"
  by (induction s) (simp_all add: strip_p_Nil strip_p_step)

lemma strip_p_skip_opening: "\<not> has_tag a \<Longrightarrow> strip_p (a @ ''<p>'' @ b) = a @ strip_p b"
proof (induction a)
  case Nil
  show ?case using strip_p_opening [of b] by simp
next
  case (Cons c a)
  then have "\<not> starts_with_tag (c # a)" and ih: "strip_p (a @ ''<p>'' @ b) = a @ strip_p b"
    by simp_all
  then have "\<not> starts_with_tag (c # a @ CHR ''<'' # ''p>'' @ b)"
    by (rule_tac starts_with_tag_before_lt)
  then have "strip_p (c # a @ ''<p>'' @ b) = c # strip_p (a @ ''<p>'' @ b)"
    using strip_p_step [of c "a @ ''<p>'' @ b"] by simp
  with ih show ?case by simp
qed

lemma strip_p_skip_closing: "\<not> has_tag a \<Longrightarrow> strip_p (a @ ''</p>'' @ b) = a @ strip_p b"
proof (induction a)
  case Nil
  show ?case using strip_p_closing [of b] by simp
next
  case (Cons c a)
  then have "\<not> starts_with_tag (c # a)" and ih: "strip_p (a @ ''</p>'' @ b) = a @ strip_p b"
    by simp_all
  then have "\<not> starts_with_tag (c # a @ CHR ''<'' # ''/p>'' @ b)"
    by (rule_tac starts_with_tag_before_lt)
  then have "strip_p (c # a @ ''</p>'' @ b) = c # strip_p (a @ ''</p>'' @ b)"
    using strip_p_step [of c "a @ ''</p>'' @ b"] by simp
  with ih show ?case by simp
qed

lemma strips_to_unique: "strips_to s r \<Longrightarrow> r = strip_p s"
proof (induction rule: strips_to.induct)
  case (no_tag s)
  then show ?case using strip_p_no_tag [of s] by simp
next
  case (open_tag a b r)
  from open_tag(1) have "strip_p (a @ ''<p>'' @ b) = a @ strip_p b"
    by (rule strip_p_skip_opening)
  with open_tag(3) show ?case by (simp only:)
next
  case (close_tag a b r)
  from close_tag(1) have "strip_p (a @ ''</p>'' @ b) = a @ strip_p b"
    by (rule strip_p_skip_closing)
  with close_tag(3) show ?case by (simp only:)
qed

lemma strips_to_Cons:
  assumes "strips_to b r" and "\<not> starts_with_tag (c # b)"
  shows "strips_to (c # b) (c # r)"
  using assms
proof (cases rule: strips_to.cases)
  case no_tag
  then show ?thesis using assms(2) by (simp add: strips_to.no_tag)
next
  case (open_tag a b' r')
  have "\<not> starts_with_tag (c # a)"
    using assms(2) open_tag(1) starts_with_tag_append [of "c # a" "''<p>'' @ b'"] by auto
  then have "\<not> has_tag (c # a)" using open_tag(3) by simp
  then have "strips_to ((c # a) @ ''<p>'' @ b') ((c # a) @ r')"
    using open_tag(4) by (rule strips_to.open_tag)
  then show ?thesis using open_tag(1,2) by simp
next
  case (close_tag a b' r')
  have "\<not> starts_with_tag (c # a)"
    using assms(2) close_tag(1) starts_with_tag_append [of "c # a" "''</p>'' @ b'"] by auto
  then have "\<not> has_tag (c # a)" using close_tag(3) by simp
  then have "strips_to ((c # a) @ ''</p>'' @ b') ((c # a) @ r')"
    using close_tag(4) by (rule strips_to.close_tag)
  then show ?thesis using close_tag(1,2) by simp
qed

lemma strip_p_strips: "strips_to s (strip_p s)"
proof (induction s rule: strip_p.induct)
  case (1 s)
  show ?case
  proof (cases "s = []")
    case True
    then show ?thesis by (simp add: strip_p_Nil strips_to.no_tag)
  next
    case ne: False
    show ?thesis
    proof (cases "take 3 s = ''<p>''")
      case True
      then have s: "s = ''<p>'' @ drop 3 s"
        by (metis append_take_drop_id)
      have "strips_to (drop 3 s) (strip_p (drop 3 s))"
        using 1(1) ne True by simp
      then have "strips_to ([] @ ''<p>'' @ drop 3 s) ([] @ strip_p (drop 3 s))"
        by (intro strips_to.open_tag) simp
      moreover have "strip_p s = strip_p (drop 3 s)"
        using strip_p_opening [of "drop 3 s"] s by simp
      ultimately show ?thesis using s by simp
    next
      case no3: False
      show ?thesis
      proof (cases "take 4 s = ''</p>''")
        case True
        then have s: "s = ''</p>'' @ drop 4 s"
          by (metis append_take_drop_id)
        have "strips_to (drop 4 s) (strip_p (drop 4 s))"
          using 1(2) ne no3 True by simp
        then have "strips_to ([] @ ''</p>'' @ drop 4 s) ([] @ strip_p (drop 4 s))"
          by (intro strips_to.close_tag) simp
        moreover have "strip_p s = strip_p (drop 4 s)"
          using strip_p_closing [of "drop 4 s"] s by simp
        ultimately show ?thesis using s by simp
      next
        case no4: False
        obtain c s' where s: "s = c # s'" using ne by (cases s) auto
        have nt: "\<not> starts_with_tag (c # s')"
          using no3 no4 s by (simp add: starts_with_tag_def)
        have "strips_to (tl s) (strip_p (tl s))"
          using 1(3) ne no3 no4 by simp
        then have "strips_to (c # s') (c # strip_p s')"
          using s nt by (simp add: strips_to_Cons)
        then show ?thesis using s nt by (simp add: strip_p_step)
      qed
    qed
  qed
qed

lemma has_tag_iff:
  "has_tag s = (\<exists>u v. s = u @ ''<p>'' @ v \<or> s = u @ ''</p>'' @ v)"
proof (induction s)
  case Nil
  show ?case by simp
next
  case (Cons c cs)
  show ?case
  proof
    assume "has_tag (c # cs)"
    then consider "take 3 (c # cs) = ''<p>''" | "take 4 (c # cs) = ''</p>''" | "has_tag cs"
      unfolding has_tag.simps starts_with_tag_def by blast
    then show "\<exists>u v. c # cs = u @ ''<p>'' @ v \<or> c # cs = u @ ''</p>'' @ v"
    proof cases
      case 1
      then have "c # cs = [] @ ''<p>'' @ drop 3 (c # cs)"
        by (metis append_Nil append_take_drop_id)
      then show ?thesis by blast
    next
      case 2
      then have "c # cs = [] @ ''</p>'' @ drop 4 (c # cs)"
        by (metis append_Nil append_take_drop_id)
      then show ?thesis by blast
    next
      case 3
      then obtain u v where "cs = u @ ''<p>'' @ v \<or> cs = u @ ''</p>'' @ v"
        using Cons.IH by blast
      then have "c # cs = (c # u) @ ''<p>'' @ v \<or> c # cs = (c # u) @ ''</p>'' @ v"
        by simp
      then show ?thesis by blast
    qed
  next
    assume "\<exists>u v. c # cs = u @ ''<p>'' @ v \<or> c # cs = u @ ''</p>'' @ v"
    then obtain u v where uv: "c # cs = u @ ''<p>'' @ v \<or> c # cs = u @ ''</p>'' @ v"
      by blast
    show "has_tag (c # cs)"
    proof (cases u)
      case Nil
      with uv have "starts_with_tag (c # cs)"
        by (auto simp: starts_with_tag_def)
      then show ?thesis by simp
    next
      case (Cons d u')
      with uv have "cs = u' @ ''<p>'' @ v \<or> cs = u' @ ''</p>'' @ v"
        by auto
      then have "has_tag cs" using Cons.IH by blast
      then show ?thesis by simp
    qed
  qed
qed

lemma commentText_cases:
  "commentText unescape (new_HitObject hit dbg) =
     strip_p (unescape (case comment_text (hit_data hit) of None \<Rightarrow> [] | Some t \<Rightarrow> t))"
  by (simp add: commentText_def unescapeHtml_def new_HitObject_def)

text \<open>
  Claim C10. The getter \<open>commentText\<close> returns a string for every comment record:
  the empty string when the raw \<open>comment_text\<close> is absent; otherwise the text
  decoded by \<open>unescape\<close> with its paragraph tags removed, that is, the one text
  that the decoded text \<open>strips_to\<close>. The library function \<open>unescape\<close> is a
  parameter; all that is used of it is that it maps the empty string to the empty
  string.
\<close>

theorem commentText_total:
  assumes "unescape [] = []"
  shows "case comment_text (hit_data hit) of
           None \<Rightarrow> commentText unescape (new_HitObject hit dbg) = []
         | Some t \<Rightarrow>
             strips_to (unescape t) (commentText unescape (new_HitObject hit dbg))
             \<and> (\<forall>r. strips_to (unescape t) r \<longrightarrow>
                    r = commentText unescape (new_HitObject hit dbg))"
proof (cases "comment_text (hit_data hit)")
  case None
  then have "commentText unescape (new_HitObject hit dbg) = strip_p (unescape [])"
    by (simp add: commentText_cases)
  then have "commentText unescape (new_HitObject hit dbg) = []"
    by (simp only: assms strip_p_Nil)
  then show ?thesis by (simp only: None option.case)
next
  case (Some t)
  then have c: "commentText unescape (new_HitObject hit dbg) = strip_p (unescape t)"
    by (simp add: commentText_cases)
  have 1: "strips_to (unescape t) (commentText unescape (new_HitObject hit dbg))"
    unfolding c by (rule strip_p_strips)
  have 2: "\<forall>r. strips_to (unescape t) r \<longrightarrow>
             r = commentText unescape (new_HitObject hit dbg)"
    unfolding c by (intro allI impI) (rule strips_to_unique)
  show ?thesis
    unfolding Some option.case using 1 2 by (rule conjI)
qed

theorem commentText_total_witness:
  "id ([] :: string) = []
   \<and> commentText id (new_HitObject (example_hit 1) False) = []
   \<and> strips_to ''<p>Hello</p>'' ''Hello''
   \<and> commentText id
        (new_HitObject ((example_hit 1)\<lparr>hit_data :=
            (example_data 1)\<lparr>comment_text := Some ''<p>Hello</p>''\<rparr>\<rparr>) False) = ''Hello''"
proof -
  let ?hit = "(example_hit 1)\<lparr>hit_data :=
            (example_data 1)\<lparr>comment_text := Some ''<p>Hello</p>''\<rparr>\<rparr>"
  have h: "id ([] :: string) = []" by simp
  have c: "comment_text (hit_data (example_hit 1)) = None"
    by (simp add: example_hit_def example_data_def)
  have c': "comment_text (hit_data ?hit) = Some ''<p>Hello</p>''"
    by simp
  have e: "strips_to [] []"
    by (rule strips_to.no_tag) simp
  have n: "\<not> has_tag ''Hello''"
    by (simp add: starts_with_tag_def)
  have "strips_to (''Hello'' @ ''</p>'' @ []) (''Hello'' @ [])"
    using n e by (rule strips_to.close_tag)
  then have t: "strips_to ''Hello</p>'' ''Hello''" by simp
  have n0: "\<not> has_tag []" by simp
  have "strips_to ([] @ ''<p>'' @ ''Hello</p>'') ([] @ ''Hello'')"
    using n0 t by (rule strips_to.open_tag)
  then have s: "strips_to ''<p>Hello</p>'' ''Hello''" by simp
  have a: "commentText id (new_HitObject (example_hit 1) False) = []"
    using commentText_total [of id "example_hit 1" False, OF h] unfolding c option.case .
  have "strips_to (id ''<p>Hello</p>'') (commentText id (new_HitObject ?hit False))
        \<and> (\<forall>r. strips_to (id ''<p>Hello</p>'') r \<longrightarrow>
               r = commentText id (new_HitObject ?hit False))"
    using commentText_total [of id ?hit False, OF h] unfolding c' option.case .
  then have "\<forall>r. strips_to (id ''<p>Hello</p>'') r \<longrightarrow>
               r = commentText id (new_HitObject ?hit False)"
    by (rule conjunct2)
  then have "\<forall>r. strips_to ''<p>Hello</p>'' r \<longrightarrow>
               r = commentText id (new_HitObject ?hit False)"
    unfolding id_apply .
  then have "strips_to ''<p>Hello</p>'' ''Hello'' \<longrightarrow>
               ''Hello'' = commentText id (new_HitObject ?hit False)"
    by (rule spec)
  with s have b: "commentText id (new_HitObject ?hit False) = ''Hello''"
    by (simp only:)
  from h a s b show ?thesis
    by (intro conjI)
qed

section \<open>One request and its outcome\<close>

lemma fetch_requests: "snd (fetch u w) = w\<lparr>requests := requests w @ [u]\<rparr>"
  by (simp add: fetch_def)

lemma search_world: "snd (search cfg params w) = w\<lparr>requests := requests w @ [search_url cfg params]\<rparr>"
  by (simp add: search_def fetch_def split: fetch_result.split)

lemma search_resolved:
  "server w (length (requests w)) (search_url cfg params) = Resolved r \<Longrightarrow>
   search cfg params w = (search_result cfg r, w\<lparr>requests := requests w @ [search_url cfg params]\<rparr>)"
  by (simp add: search_def fetch_def)

lemma search_result_ok:
  "ok r \<Longrightarrow> json_body r = Some env \<Longrightarrow>
   search_result cfg r =
     Inr \<lparr>meta = \<lparr>meta_hitsPerPage = res_hitsPerPage env, numberOfHits = nbHits env,
                   numberOfPages = nbPages env, currentPage = res_page env,
                   timeMsProcessing = processingTimeMS env, timeMsServer = serverTimeMS env\<rparr>,
          data = map (normalize (objDebug cfg)) (hits env)\<rparr>"
  by (simp add: search_result_def)

lemma number_toString_404: "number_toString 404 = ''404''"
  by (simp add: number_toString_def digits.simps)

lemma number_toString_38842977: "number_toString 38842977 = ''38842977''"
  by (simp add: number_toString_def digits.simps)

text \<open>
  Claim C5, as amended. When the response of a search call has a status outside 200
  to 299, the call fails with a plain \<open>Error\<close> whose message is
  \<open>HTTP error! status:\<close> followed by the numeric status code; the status text is
  not part of the error. Exactly one request has been issued (there is no retry), and
  the failure is the result that the caller receives.
\<close>

theorem search_http_error:
  assumes "server w (length (requests w)) (search_url cfg params) = Resolved r"
      and "\<not> ok r"
  shows "search cfg params w =
           (Inl (Error (''HTTP error! status: '' @ number_toString (status r))),
            w\<lparr>requests := requests w @ [search_url cfg params]\<rparr>)"
  using assms by (simp add: search_resolved search_result_def)


theorem search_http_error_witness:
  "server (example_world (example_response 404 ''Not Found'' []))
      (length (requests (example_world (example_response 404 ''Not Found'' []))))
      (search_url default_config no_params) = Resolved (example_response 404 ''Not Found'' [])
   \<and> \<not> ok (example_response 404 ''Not Found'' [])
   \<and> search default_config no_params (example_world (example_response 404 ''Not Found'' [])) =
       (Inl (Error ''HTTP error! status: 404''),
        (example_world (example_response 404 ''Not Found'' []))
           \<lparr>requests := [search_url default_config no_params]\<rparr>)"
proof -
  have h1: "server (example_world (example_response 404 ''Not Found'' []))
      (length (requests (example_world (example_response 404 ''Not Found'' []))))
      (search_url default_config no_params) = Resolved (example_response 404 ''Not Found'' [])"
    by (simp add: example_world_def)
  have h2: "\<not> ok (example_response 404 ''Not Found'' [])"
    by (simp add: ok_def example_response_def)
  have st: "status (example_response 404 ''Not Found'' []) = 404"
    by (simp add: example_response_def)
  have rq: "requests (example_world (example_response 404 ''Not Found'' [])) = []"
    by (simp add: example_world_def)
  show ?thesis
    using search_http_error [OF h1 h2] h1 h2 by (simp add: st rq number_toString_404)
qed


text \<open>The claim as it was stated fails: two responses with status 404 and different
  status texts give the same error value, so the error does not carry the status
  text.\<close>

theorem search_error_drops_statusText:
  "fst (search default_config no_params (example_world (example_response 404 ''Not Found'' [])))
     = Inl (Error ''HTTP error! status: 404'')
   \<and> fst (search default_config no_params (example_world (example_response 404 ''Gone'' [])))
     = Inl (Error ''HTTP error! status: 404'')"
  by (simp add: search_def fetch_def example_world_def example_response_def search_result_def
      ok_def number_toString_404)


section \<open>The pairs of the query string\<close>

lemma map_of_set_query:
  "k \<noteq> ''query'' \<Longrightarrow> map_of (set_query p sp) k = map_of sp k"
  by (simp add: set_query_def map_of_usp_set split: option.split)

lemma map_of_set_tags:
  "map_of (set_tags p sp) k =
     (if k = ''tags'' \<and> tags p \<noteq> None \<and> tags p \<noteq> Some []
      then Some (join '','' (map tag_item_toString (the (tags p)))) else map_of sp k)"
  by (simp add: set_tags_def map_of_usp_set split: option.split)

lemma map_of_set_numericFilters:
  "map_of (set_numericFilters p sp) k =
     (if k = ''numericFilters'' \<and> numericFilters p \<noteq> None \<and> numericFilters p \<noteq> Some []
      then Some (join '','' (the (numericFilters p))) else map_of sp k)"
  by (simp add: set_numericFilters_def map_of_usp_set split: option.split)

lemma map_of_set_optionalWords:
  "k \<noteq> ''optionalWords'' \<Longrightarrow> map_of (set_optionalWords p sp) k = map_of sp k"
  by (simp add: set_optionalWords_def map_of_usp_set split: option.split)

lemma map_of_set_page:
  "k \<noteq> ''page'' \<Longrightarrow> map_of (set_page p sp) k = map_of sp k"
  by (simp add: set_page_def map_of_usp_set split: option.split)

lemma map_of_set_filters:
  "map_of (set_filters p sp) k =
     (if k = ''filters'' \<and> filters p \<noteq> None \<and> filters p \<noteq> Some []
      then filters p else map_of sp k)"
  by (simp add: set_filters_def map_of_usp_set split: option.split)

lemma map_of_set_hitsPerPage:
  "k \<noteq> ''hitsPerPage'' \<Longrightarrow> map_of (set_hitsPerPage p sp) k = map_of sp k"
  by (simp add: set_hitsPerPage_def map_of_usp_set split: option.split)

lemma map_of_set_restrict:
  "k \<noteq> ''restrictSearchableAttributes'' \<Longrightarrow> map_of (set_restrict p sp) k = map_of sp k"
  by (simp add: set_restrict_value map_of_usp_set)

lemma entries_tags:
  "map_of (searchParams_entries p) ''tags'' =
     (case tags p of None \<Rightarrow> None
      | Some ts \<Rightarrow> if ts = [] then None else Some (join '','' (map tag_item_toString ts)))"
proof -
  have "map_of (searchParams_entries p) ''tags'' = map_of (set_tags p (set_query p [])) ''tags''"
    by (simp add: searchParams_entries_def map_of_set_restrict map_of_set_hitsPerPage
        map_of_set_filters map_of_set_page map_of_set_optionalWords map_of_set_numericFilters)
  also have "\<dots> = (case tags p of None \<Rightarrow> None
      | Some ts \<Rightarrow> if ts = [] then None else Some (join '','' (map tag_item_toString ts)))"
    by (simp add: map_of_set_tags map_of_set_query split: option.split)
  finally show ?thesis .
qed

lemma entries_numericFilters:
  "map_of (searchParams_entries p) ''numericFilters'' =
     (case numericFilters p of None \<Rightarrow> None
      | Some fs \<Rightarrow> if fs = [] then None else Some (join '','' fs))"
proof -
  have "map_of (searchParams_entries p) ''numericFilters'' =
          map_of (set_numericFilters p (set_tags p (set_query p []))) ''numericFilters''"
    by (simp add: searchParams_entries_def map_of_set_restrict map_of_set_hitsPerPage
        map_of_set_filters map_of_set_page map_of_set_optionalWords)
  also have "\<dots> = (case numericFilters p of None \<Rightarrow> None
      | Some fs \<Rightarrow> if fs = [] then None else Some (join '','' fs))"
    by (simp add: map_of_set_numericFilters map_of_set_tags map_of_set_query split: option.split)
  finally show ?thesis .
qed

lemma entries_filters:
  "map_of (searchParams_entries p) ''filters'' =
     (case filters p of None \<Rightarrow> None
      | Some f \<Rightarrow> if f = [] then None else Some f)"
proof -
  have "map_of (searchParams_entries p) ''filters'' =
          map_of (set_filters p (set_page p (set_optionalWords p
            (set_numericFilters p (set_tags p (set_query p [])))))) ''filters''"
    by (simp add: searchParams_entries_def map_of_set_restrict map_of_set_hitsPerPage)
  also have "\<dots> = (case filters p of None \<Rightarrow> None
      | Some f \<Rightarrow> if f = [] then None else Some f)"
    by (simp add: map_of_set_filters map_of_set_page map_of_set_optionalWords
        map_of_set_numericFilters map_of_set_tags map_of_set_query split: option.split)
  finally show ?thesis .
qed

section \<open>The facade\<close>

lemma first_lookup_url_eq: "search_url cfg whoIsHiring_first = first_lookup_url cfg"
  by (simp add: first_lookup_url_def search_url_pieces buildSearchParams_pairs whoIsHiring_first_def
      no_params_def search_params_def effective_hitsPerPage_def nonempty_def url_pair_def
      restrict_value_def STORY_def createAuthorTag_def join_def number_toString_def digits.simps
      urlencode_def urlencode_byte_def urlencoded_safe_def)

lemma frontPage_url:
  "search_url cfg (frontPage_params now params) =
     baseUrl cfg @ ''/'' @ (if sortByDate params = Some False then ''search'' else ''search_by_date'')
       @ ''?'' @ url_pair ''query'' (nonempty (query params))
       @ ''tags=front_page%2Cstory&numericFilters=created_at_i%3E%3D''
       @ number_toString (now div 1000 - 604800) @ ''&''
       @ url_pair ''optionalWords'' (map_option (join '' '') (nonempty (optionalWords params)))
       @ url_pair ''page'' (map_option number_toString (page params))
       @ url_pair ''filters'' (nonempty (filters params))
       @ ''hitsPerPage='' @ number_toString (effective_hitsPerPage (hitsPerPage params))
       @ ''&restrictSearchableAttributes='' @ urlencode (restrict_value params)"
proof -
  show ?thesis
    by (simp add: search_url_pieces buildSearchParams_pairs search_params_def frontPage_params_def
        nonempty_def url_pair_def restrict_value_def FRONT_PAGE_def STORY_def join_def
        urlencode_Cons urlencode_Nil urlencode_byte_def urlencoded_safe_def urlencode_number)
qed

lemma whoIsHiring_second_url:
  "search_url cfg (whoIsHiring_second params story) =
     baseUrl cfg @ ''/'' @ (if sortByDate params = Some False then ''search'' else ''search_by_date'')
       @ ''?'' @ url_pair ''query'' (nonempty (query params))
       @ ''tags=comment&''
       @ url_pair ''numericFilters'' (map_option (join '','') (nonempty (numericFilters params)))
       @ url_pair ''optionalWords'' (map_option (join '' '') (nonempty (optionalWords params)))
       @ url_pair ''page'' (map_option number_toString (page params))
       @ ''filters=parent_id%3D'' @ id_toString (story_id (o_data (fields_of story)))
       @ ''&hitsPerPage=100&restrictSearchableAttributes='' @ urlencode (restrict_value params)"
proof -
  have n: "number_toString 100 = ''100''"
    by (simp add: number_toString_def digits.simps)
  show ?thesis
    by (simp add: search_url_pieces buildSearchParams_pairs search_params_def
        whoIsHiring_second_def effective_hitsPerPage_def
        nonempty_def url_pair_def restrict_value_def COMMENT_def join_def n
        urlencode_Cons urlencode_Nil urlencode_byte_def urlencoded_safe_def urlencode_id)
qed

text \<open>
  Claim C7. Every call of \<open>frontPage\<close> builds a search request whose numericFilters
  are exactly one filter \<open>created_at_i>=N\<close>, where N is within one second of the
  call time minus 604800 seconds (the clock is read in milliseconds, so the bounds
  are stated in milliseconds), and whose tags are front_page and story. This holds of
  the object passed to \<open>search\<close>, of the pairs of the query string, and of the URL
  of the one request that is issued, which is written out: after the optional query
  pair it reads \<open>tags=front_page%2Cstory&numericFilters=created_at_i%3E%3DN&\<close>
  (\<open>pg\<close> is the page pair, empty when no page is given).
\<close>

theorem frontPage_request:
  "tags (frontPage_params (now_ms w) params) = Some [TagStr ''front_page'', TagStr ''story'']
   \<and> numericFilters (frontPage_params (now_ms w) params) =
       Some [''created_at_i>='' @ number_toString (now_ms w div 1000 - 604800)]
   \<and> 1000 * (now_ms w div 1000 - 604800) \<le> now_ms w - 604800 * 1000
   \<and> now_ms w - 604800 * 1000 < 1000 * (now_ms w div 1000 - 604800) + 1000
   \<and> map_of (searchParams_entries (search_params (frontPage_params (now_ms w) params))) ''tags''
       = Some ''front_page,story''
   \<and> map_of (searchParams_entries (search_params (frontPage_params (now_ms w) params)))
         ''numericFilters''
       = Some (''created_at_i>='' @ number_toString (now_ms w div 1000 - 604800))
   \<and> requests (snd (frontPage cfg params w)) =
       requests w @ [search_url cfg (frontPage_params (now_ms w) params)]
   \<and> (\<exists>pg. requests (snd (frontPage cfg params w)) =
         requests w @
         [baseUrl cfg @ ''/''
          @ (if sortByDate params = Some False then ''search'' else ''search_by_date'') @ ''?''
          @ url_pair ''query'' (nonempty (query params))
          @ ''tags=front_page%2Cstory&numericFilters=created_at_i%3E%3D''
          @ number_toString (now_ms w div 1000 - 604800) @ ''&''
          @ url_pair ''optionalWords'' (map_option (join '' '') (nonempty (optionalWords params)))
          @ pg
          @ url_pair ''filters'' (nonempty (filters params))
          @ ''hitsPerPage='' @ number_toString (effective_hitsPerPage (hitsPerPage params))
          @ ''&restrictSearchableAttributes='' @ urlencode (restrict_value params)])"
proof (intro conjI)
  show "tags (frontPage_params (now_ms w) params) = Some [TagStr ''front_page'', TagStr ''story'']"
    by (simp add: frontPage_params_def FRONT_PAGE_def STORY_def)
  show "numericFilters (frontPage_params (now_ms w) params) =
       Some [''created_at_i>='' @ number_toString (now_ms w div 1000 - 604800)]"
    by (simp add: frontPage_params_def)
  show "1000 * (now_ms w div 1000 - 604800) \<le> now_ms w - 604800 * 1000"
    by simp
  show "now_ms w - 604800 * 1000 < 1000 * (now_ms w div 1000 - 604800) + 1000"
    by simp
  show "map_of (searchParams_entries (search_params (frontPage_params (now_ms w) params))) ''tags''
       = Some ''front_page,story''"
    by (simp add: entries_tags search_params_def frontPage_params_def FRONT_PAGE_def STORY_def
        join_def)
  show "map_of (searchParams_entries (search_params (frontPage_params (now_ms w) params)))
         ''numericFilters''
       = Some (''created_at_i>='' @ number_toString (now_ms w div 1000 - 604800))"
    by (simp add: entries_numericFilters search_params_def frontPage_params_def join_def)
  show "requests (snd (frontPage cfg params w)) =
       requests w @ [search_url cfg (frontPage_params (now_ms w) params)]"
    by (simp add: frontPage_def search_world)
  have explicit: "requests (snd (frontPage cfg params w)) =
         requests w @
         [baseUrl cfg @ ''/''
          @ (if sortByDate params = Some False then ''search'' else ''search_by_date'') @ ''?''
          @ url_pair ''query'' (nonempty (query params))
          @ ''tags=front_page%2Cstory&numericFilters=created_at_i%3E%3D''
          @ number_toString (now_ms w div 1000 - 604800) @ ''&''
          @ url_pair ''optionalWords'' (map_option (join '' '') (nonempty (optionalWords params)))
          @ url_pair ''page'' (map_option number_toString (page params))
          @ url_pair ''filters'' (nonempty (filters params))
          @ ''hitsPerPage='' @ number_toString (effective_hitsPerPage (hitsPerPage params))
          @ ''&restrictSearchableAttributes='' @ urlencode (restrict_value params)]"
    unfolding frontPage_url [symmetric] by (simp add: frontPage_def search_world)
  show "\<exists>pg. requests (snd (frontPage cfg params w)) =
         requests w @
         [baseUrl cfg @ ''/''
          @ (if sortByDate params = Some False then ''search'' else ''search_by_date'') @ ''?''
          @ url_pair ''query'' (nonempty (query params))
          @ ''tags=front_page%2Cstory&numericFilters=created_at_i%3E%3D''
          @ number_toString (now_ms w div 1000 - 604800) @ ''&''
          @ url_pair ''optionalWords'' (map_option (join '' '') (nonempty (optionalWords params)))
          @ pg
          @ url_pair ''filters'' (nonempty (filters params))
          @ ''hitsPerPage='' @ number_toString (effective_hitsPerPage (hitsPerPage params))
          @ ''&restrictSearchableAttributes='' @ urlencode (restrict_value params)]"
    by (rule exI [where x = "url_pair ''page'' (map_option number_toString (page params))"])
       (rule explicit)
qed

lemma frontPage_example:
  "search_url default_config (frontPage_params 1700000000123 no_params) =
     ''https://hn.algolia.com/api/v1/search_by_date?tags=front_page%2Cstory&numericFilters=created_at_i%3E%3D1699395200&hitsPerPage=100&restrictSearchableAttributes=title''"
  by (simp add: search_url_def search_params_def no_params_def effective_hitsPerPage_def
      frontPage_params_def default_config_def FRONT_PAGE_def STORY_def
      buildSearchParams_def searchParams_entries_def set_hitsPerPage_def set_filters_def
      set_page_def set_optionalWords_def set_numericFilters_def set_tags_def set_query_def
      set_restrict_def usp_toString_def join_def number_toString_def urlencode_def
      urlencode_byte_def urlencoded_safe_def digits.simps)

text \<open>
  Claim C9. Two calls of \<open>frontPage\<close> whose parameter objects differ only in the
  numericFilters list build the same search request at equal call times and have the
  same outcome: the list of the caller is replaced by the single week filter.
\<close>

theorem frontPage_ignores_numericFilters:
  "frontPage_params now (params\<lparr>numericFilters := a\<rparr>) =
     frontPage_params now (params\<lparr>numericFilters := b\<rparr>)
   \<and> search_url cfg (frontPage_params now (params\<lparr>numericFilters := a\<rparr>)) =
     search_url cfg (frontPage_params now (params\<lparr>numericFilters := b\<rparr>))
   \<and> frontPage cfg (params\<lparr>numericFilters := a\<rparr>) w =
     frontPage cfg (params\<lparr>numericFilters := b\<rparr>) w
   \<and> numericFilters (frontPage_params now (params\<lparr>numericFilters := a\<rparr>)) =
     Some [''created_at_i>='' @ number_toString (now div 1000 - 604800)]"
  by (simp add: frontPage_def frontPage_params_def)


text \<open>
  Claim C8. The first request of \<open>whoIsHiring\<close> is the lookup of the latest story
  of the account whoishiring (\<open>first_lookup_url\<close>). When it succeeds with zero
  hits, the method returns that response and the first request is the only one
  issued. When it yields a hit, exactly one more request is issued, and its URL,
  written out, carries \<open>tags=comment\<close>, the filter
  \<open>filters=parent_id%3D\<close> followed by the \<open>story_id\<close> of the first hit, and
  \<open>hitsPerPage=100\<close> (\<open>pg\<close> is the page pair, empty when no page is given).
\<close>

theorem whoIsHiring_requests:
  assumes "server w (length (requests w)) (first_lookup_url cfg) = Resolved r"
      and "ok r"
      and "json_body r = Some env"
  shows "case hits env of
           [] \<Rightarrow>
             whoIsHiring cfg params w =
               (search_result cfg r, w\<lparr>requests := requests w @ [first_lookup_url cfg]\<rparr>)
             \<and> (\<exists>m. search_result cfg r = Inr \<lparr>meta = m, data = []\<rparr>)
         | h # hs \<Rightarrow>
             (\<exists>pg. requests (snd (whoIsHiring cfg params w)) =
                requests w @
                [first_lookup_url cfg,
                 baseUrl cfg @ ''/''
                 @ (if sortByDate params = Some False then ''search'' else ''search_by_date'')
                 @ ''?'' @ url_pair ''query'' (nonempty (query params))
                 @ ''tags=comment&''
                 @ url_pair ''numericFilters''
                     (map_option (join '','') (nonempty (numericFilters params)))
                 @ url_pair ''optionalWords''
                     (map_option (join '' '') (nonempty (optionalWords params)))
                 @ pg
                 @ ''filters=parent_id%3D'' @ id_toString (story_id (hit_data h))
                 @ ''&hitsPerPage=100&restrictSearchableAttributes=''
                 @ urlencode (restrict_value params)])
             \<and> map_of (searchParams_entries
                   (search_params (whoIsHiring_second params (normalize (objDebug cfg) h))))
                   ''filters''
                 = Some (''parent_id='' @ id_toString (story_id (hit_data h)))"
proof (cases "hits env")
  case Nil
  have "search cfg whoIsHiring_first w =
          (search_result cfg r, w\<lparr>requests := requests w @ [search_url cfg whoIsHiring_first]\<rparr>)"
    using assms(1) unfolding first_lookup_url_eq [symmetric] by (rule search_resolved)
  then have first: "search cfg whoIsHiring_first w =
          (search_result cfg r, w\<lparr>requests := requests w @ [first_lookup_url cfg]\<rparr>)"
    unfolding first_lookup_url_eq .
  have res: "search_result cfg r =
      Inr \<lparr>meta = \<lparr>meta_hitsPerPage = res_hitsPerPage env, numberOfHits = nbHits env,
                   numberOfPages = nbPages env, currentPage = res_page env,
                   timeMsProcessing = processingTimeMS env, timeMsServer = serverTimeMS env\<rparr>,
          data = []\<rparr>"
    using search_result_ok [OF assms(2,3), of cfg] Nil by simp
  have 1: "whoIsHiring cfg params w =
             (search_result cfg r, w\<lparr>requests := requests w @ [first_lookup_url cfg]\<rparr>)"
    by (simp add: whoIsHiring_def first res)
  have 2: "\<exists>m. search_result cfg r = Inr \<lparr>meta = m, data = []\<rparr>"
    using res by blast
  show ?thesis
    unfolding Nil list.case using 1 2 by (rule conjI)
next
  case (Cons h hs)
  let ?w1 = "w\<lparr>requests := requests w @ [first_lookup_url cfg]\<rparr>"
  let ?second = "whoIsHiring_second params (normalize (objDebug cfg) h)"
  have "search cfg whoIsHiring_first w =
          (search_result cfg r, w\<lparr>requests := requests w @ [search_url cfg whoIsHiring_first]\<rparr>)"
    using assms(1) unfolding first_lookup_url_eq [symmetric] by (rule search_resolved)
  then have first: "search cfg whoIsHiring_first w = (search_result cfg r, ?w1)"
    unfolding first_lookup_url_eq .
  have res: "search_result cfg r =
      Inr \<lparr>meta = \<lparr>meta_hitsPerPage = res_hitsPerPage env, numberOfHits = nbHits env,
                   numberOfPages = nbPages env, currentPage = res_page env,
                   timeMsProcessing = processingTimeMS env, timeMsServer = serverTimeMS env\<rparr>,
          data = normalize (objDebug cfg) h # map (normalize (objDebug cfg)) hs\<rparr>"
    using search_result_ok [OF assms(2,3), of cfg] Cons by simp
  have "whoIsHiring cfg params w = search cfg ?second ?w1"
    by (simp add: whoIsHiring_def first res)
  then have reqs: "requests (snd (whoIsHiring cfg params w)) =
      requests w @ [first_lookup_url cfg, search_url cfg ?second]"
    by (simp add: search_world)
  have sid: "story_id (o_data (fields_of (normalize (objDebug cfg) h))) = story_id (hit_data h)"
    by (simp add: fields_of_normalize new_HitObject_def)
  have explicit: "requests (snd (whoIsHiring cfg params w)) =
                requests w @
                [first_lookup_url cfg,
                 baseUrl cfg @ ''/''
                 @ (if sortByDate params = Some False then ''search'' else ''search_by_date'')
                 @ ''?'' @ url_pair ''query'' (nonempty (query params))
                 @ ''tags=comment&''
                 @ url_pair ''numericFilters''
                     (map_option (join '','') (nonempty (numericFilters params)))
                 @ url_pair ''optionalWords''
                     (map_option (join '' '') (nonempty (optionalWords params)))
                 @ url_pair ''page'' (map_option number_toString (page params))
                 @ ''filters=parent_id%3D'' @ id_toString (story_id (hit_data h))
                 @ ''&hitsPerPage=100&restrictSearchableAttributes=''
                 @ urlencode (restrict_value params)]"
    using reqs unfolding whoIsHiring_second_url sid .
  have 1: "\<exists>pg. requests (snd (whoIsHiring cfg params w)) =
                requests w @
                [first_lookup_url cfg,
                 baseUrl cfg @ ''/''
                 @ (if sortByDate params = Some False then ''search'' else ''search_by_date'')
                 @ ''?'' @ url_pair ''query'' (nonempty (query params))
                 @ ''tags=comment&''
                 @ url_pair ''numericFilters''
                     (map_option (join '','') (nonempty (numericFilters params)))
                 @ url_pair ''optionalWords''
                     (map_option (join '' '') (nonempty (optionalWords params)))
                 @ pg
                 @ ''filters=parent_id%3D'' @ id_toString (story_id (hit_data h))
                 @ ''&hitsPerPage=100&restrictSearchableAttributes=''
                 @ urlencode (restrict_value params)]"
    by (rule exI [where x = "url_pair ''page'' (map_option number_toString (page params))"])
       (rule explicit)
  have "filters (search_params ?second) =
          Some (''parent_id='' @ id_toString (story_id (hit_data h)))"
    by (simp add: search_params_def whoIsHiring_second_def sid)
  then have 2: "map_of (searchParams_entries (search_params ?second)) ''filters'' =
          Some (''parent_id='' @ id_toString (story_id (hit_data h)))"
    by (simp add: entries_filters)
  show ?thesis
    unfolding Cons list.case using 1 2 by (rule conjI)
qed

theorem whoIsHiring_requests_witness:
  "(server (example_world (example_response 200 ''OK'' []))
       (length (requests (example_world (example_response 200 ''OK'' []))))
       (first_lookup_url default_config) = Resolved (example_response 200 ''OK'' [])
    \<and> ok (example_response 200 ''OK'' [])
    \<and> json_body (example_response 200 ''OK'' []) = Some (example_envelope [])
    \<and> requests (snd (whoIsHiring default_config no_params
          (example_world (example_response 200 ''OK'' [])))) =
        [first_lookup_url default_config])
   \<and> (server (example_world (example_response 200 ''OK'' [example_hit 38842977]))
       (length (requests (example_world (example_response 200 ''OK'' [example_hit 38842977]))))
       (first_lookup_url default_config)
         = Resolved (example_response 200 ''OK'' [example_hit 38842977])
    \<and> ok (example_response 200 ''OK'' [example_hit 38842977])
    \<and> json_body (example_response 200 ''OK'' [example_hit 38842977])
         = Some (example_envelope [example_hit 38842977])
    \<and> (\<exists>pg. requests (snd (whoIsHiring default_config no_params
          (example_world (example_response 200 ''OK'' [example_hit 38842977])))) =
          [first_lookup_url default_config,
           ''https://hn.algolia.com/api/v1/search_by_date?tags=comment&'' @ pg @
           ''filters=parent_id%3D38842977&hitsPerPage=100&restrictSearchableAttributes=title'']))"
proof -
  let ?r0 = "example_response 200 ''OK'' []"
  let ?r1 = "example_response 200 ''OK'' [example_hit 38842977]"
  have a1: "server (example_world ?r0) (length (requests (example_world ?r0)))
              (first_lookup_url default_config) = Resolved ?r0"
    by (simp add: example_world_def)
  have a2: "ok ?r0" by (simp add: ok_def example_response_def)
  have a3: "json_body ?r0 = Some (example_envelope [])" by (simp add: example_response_def)
  have b1: "server (example_world ?r1) (length (requests (example_world ?r1)))
              (first_lookup_url default_config) = Resolved ?r1"
    by (simp add: example_world_def)
  have b2: "ok ?r1" by (simp add: ok_def example_response_def)
  have b3: "json_body ?r1 = Some (example_envelope [example_hit 38842977])"
    by (simp add: example_response_def)
  have rq0: "requests (example_world ?r0) = []" by (simp add: example_world_def)
  have rq1: "requests (example_world ?r1) = []" by (simp add: example_world_def)
  have e0: "hits (example_envelope []) = []" by (simp add: example_envelope_def)
  have e1: "hits (example_envelope [example_hit 38842977]) = [example_hit 38842977]"
    by (simp add: example_envelope_def)
  have sid: "id_toString (story_id (hit_data (example_hit 38842977))) = ''38842977''"
    by (simp add: example_hit_def example_data_def id_toString_def number_toString_38842977)
  have pieces: "baseUrl default_config = ''https://hn.algolia.com/api/v1''"
      "sortByDate no_params = None" "url_pair ''query'' (nonempty (query no_params)) = []"
      "url_pair ''numericFilters'' (map_option (join '','') (nonempty (numericFilters no_params))) = []"
      "url_pair ''optionalWords'' (map_option (join '' '') (nonempty (optionalWords no_params))) = []"
      "urlencode (restrict_value no_params) = ''title''"
    by (simp_all add: default_config_def no_params_def nonempty_def url_pair_def restrict_value_def
        urlencode_def urlencode_byte_def urlencoded_safe_def)
  have "whoIsHiring default_config no_params (example_world ?r0) =
          (search_result default_config ?r0,
           (example_world ?r0)\<lparr>requests := requests (example_world ?r0) @
              [first_lookup_url default_config]\<rparr>)
        \<and> (\<exists>m. search_result default_config ?r0 = Inr \<lparr>meta = m, data = []\<rparr>)"
    using whoIsHiring_requests [OF a1 a2 a3, of no_params] unfolding e0 list.case .
  then have c0: "requests (snd (whoIsHiring default_config no_params (example_world ?r0))) =
        [first_lookup_url default_config]"
    by (simp add: rq0)
  have "(\<exists>pg. requests (snd (whoIsHiring default_config no_params (example_world ?r1))) =
                requests (example_world ?r1) @
                [first_lookup_url default_config,
                 baseUrl default_config @ ''/''
                 @ (if sortByDate no_params = Some False then ''search'' else ''search_by_date'')
                 @ ''?'' @ url_pair ''query'' (nonempty (query no_params))
                 @ ''tags=comment&''
                 @ url_pair ''numericFilters''
                     (map_option (join '','') (nonempty (numericFilters no_params)))
                 @ url_pair ''optionalWords''
                     (map_option (join '' '') (nonempty (optionalWords no_params)))
                 @ pg
                 @ ''filters=parent_id%3D'' @ id_toString (story_id (hit_data (example_hit 38842977)))
                 @ ''&hitsPerPage=100&restrictSearchableAttributes=''
                 @ urlencode (restrict_value no_params)])
        \<and> map_of (searchParams_entries (search_params
              (whoIsHiring_second no_params
                 (normalize (objDebug default_config) (example_hit 38842977))))) ''filters''
            = Some (''parent_id='' @ id_toString (story_id (hit_data (example_hit 38842977))))"
    using whoIsHiring_requests [OF b1 b2 b3, of no_params] unfolding e1 list.case .
  then obtain pg where
    "requests (snd (whoIsHiring default_config no_params (example_world ?r1))) =
                requests (example_world ?r1) @
                [first_lookup_url default_config,
                 baseUrl default_config @ ''/''
                 @ (if sortByDate no_params = Some False then ''search'' else ''search_by_date'')
                 @ ''?'' @ url_pair ''query'' (nonempty (query no_params))
                 @ ''tags=comment&''
                 @ url_pair ''numericFilters''
                     (map_option (join '','') (nonempty (numericFilters no_params)))
                 @ url_pair ''optionalWords''
                     (map_option (join '' '') (nonempty (optionalWords no_params)))
                 @ pg
                 @ ''filters=parent_id%3D'' @ id_toString (story_id (hit_data (example_hit 38842977)))
                 @ ''&hitsPerPage=100&restrictSearchableAttributes=''
                 @ urlencode (restrict_value no_params)]"
    by (elim conjE exE)
  then have "requests (snd (whoIsHiring default_config no_params (example_world ?r1))) =
          [first_lookup_url default_config,
           ''https://hn.algolia.com/api/v1/search_by_date?tags=comment&'' @ pg @
           ''filters=parent_id%3D38842977&hitsPerPage=100&restrictSearchableAttributes=title'']"
    by (simp add: rq1 sid pieces)
  then have c1: "\<exists>pg. requests (snd (whoIsHiring default_config no_params (example_world ?r1))) =
          [first_lookup_url default_config,
           ''https://hn.algolia.com/api/v1/search_by_date?tags=comment&'' @ pg @
           ''filters=parent_id%3D38842977&hitsPerPage=100&restrictSearchableAttributes=title'']"
    by (rule exI [where x = pg])
  from a1 a2 a3 c0 b1 b2 b3 c1 show ?thesis
    by (intro conjI)
qed

end
